theory Spec2Isabelle
  imports Main "HOL-Library.Multiset"
begin

section \<open>The compiler's type representation\<close>

text \<open>
  The extractor reads an already type-checked program through the compiler's
  interfaces.  A qualified type is a type node together with its local
  \<open>const\<close> and \<open>volatile\<close> qualifiers.  The values below stand for canonical
  types (every alias resolved), so that \<open>getCanonicalType\<close>, the first statement of
  \<open>TranslateToComplexType\<close>, is the identity on them; the components of a
  canonical type are canonical, so this covers the recursive calls, and the
  translation of any type is that of its canonical type.  \<open>OtherType\<close> is any type
  that none of the \<open>getAs\<close> tests of \<open>TranslateToComplexType\<close> recognises
  (builtin, record, enum, vector, ...), identified by its spelling.
\<close>

datatype clang_Type =
    ConstantArrayType QualType nat
  | MemberPointerType QualType QualType
  | PointerType QualType
  | ReferenceType QualType
  | FunctionProtoType "QualType list" QualType
  | AtomicType QualType
  | OtherType string
and QualType =
    QualType bool bool clang_Type

text \<open>
  A printing policy is used only through \<open>QualType::getAsString(policy)\<close>; it
  is modelled by that function.
\<close>

type_synonym PrintingPolicy = "QualType \<Rightarrow> string"

section \<open>The compiler's declarations and layouts\<close>

text \<open>
  What the extractor reads from a declaration, named after the accessor it
  calls.  \<open>getTypeDeclType\<close> is \<open>ASTContext::getTypeDeclType(D)\<close>; printing it
  with the policy gives the qualified name that keys the registry.
\<close>

record TagDecl =
  isInvalidDecl :: bool
  isCompleteDefinition :: bool
  isTemplated :: bool
  getTypeDeclType :: QualType

text \<open>
  \<open>getIntegerType\<close> stands for \<open>D->getIntegerType().getCanonicalType()\<close>, and an
  enumerator is its \<open>getNameAsString()\<close> with its \<open>getInitVal()\<close>.
\<close>

record EnumDecl =
  Enum_TagDecl :: TagDecl
  isScoped :: bool
  Enum_getName :: string
  getIntegerType :: QualType
  enumerators :: "(string \<times> int) list"

datatype TagTypeKind = TTK_Struct | TTK_Interface | TTK_Union | TTK_Class | TTK_Enum

datatype OverloadedOperatorKind =
    OO_None | OO_New | OO_Delete | OO_Array_New | OO_Array_Delete
  | OO_Plus | OO_Minus | OO_Star | OO_Slash | OO_Percent | OO_Caret | OO_Amp | OO_Pipe
  | OO_Tilde | OO_Exclaim | OO_Equal | OO_Less | OO_Greater
  | OO_PlusEqual | OO_MinusEqual | OO_StarEqual | OO_SlashEqual | OO_PercentEqual
  | OO_CaretEqual | OO_AmpEqual | OO_PipeEqual
  | OO_LessLess | OO_GreaterGreater | OO_LessLessEqual | OO_GreaterGreaterEqual
  | OO_EqualEqual | OO_ExclaimEqual | OO_LessEqual | OO_GreaterEqual | OO_Spaceship
  | OO_AmpAmp | OO_PipePipe | OO_PlusPlus | OO_MinusMinus | OO_Comma | OO_ArrowStar
  | OO_Arrow | OO_Call | OO_Subscript | OO_Conditional | OO_Coawait
  | NUM_OVERLOADED_OPERATORS

text \<open>
  A virtual member function as \<open>ParseVTable\<close> reads it.  \<open>getName\<close> is empty for
  a name that is not a plain identifier (operators, destructors);
  \<open>PrettyFunctionNoVirtual\<close> is the result of \<open>PredefinedExpr::ComputeName\<close>.
\<close>

record CXXMethodDecl =
  getName :: string
  getOverloadedOperator :: OverloadedOperatorKind
  PrettyFunctionNoVirtual :: string
  isPure :: bool
  isConst :: bool
  getType :: QualType

definition isOverloadedOperator :: "CXXMethodDecl \<Rightarrow> bool" where
  "isOverloadedOperator func = (getOverloadedOperator func \<noteq> OO_None)"

text \<open>
  Thunk adjustments of the Itanium ABI.  An adjustment is empty when both of
  its parts are zero; a \<open>ThunkInfo\<close> is empty when both adjustments are and it
  names no method (the Itanium layout builder never names one).
\<close>

record ReturnAdjustment =
  Return_NonVirtual :: int
  VBaseOffsetOffset :: int

record ThisAdjustment =
  This_NonVirtual :: int
  VCallOffsetOffset :: int

record ThunkInfo =
  This :: ThisAdjustment
  Return :: ReturnAdjustment
  Method :: "CXXMethodDecl option"

definition Return_isEmpty :: "ReturnAdjustment \<Rightarrow> bool" where
  "Return_isEmpty r = (Return_NonVirtual r = 0 \<and> VBaseOffsetOffset r = 0)"

definition This_isEmpty :: "ThisAdjustment \<Rightarrow> bool" where
  "This_isEmpty t = (This_NonVirtual t = 0 \<and> VCallOffsetOffset t = 0)"

definition ThunkInfo_isEmpty :: "ThunkInfo \<Rightarrow> bool" where
  "ThunkInfo_isEmpty t = (This_isEmpty (This t) \<and> Return_isEmpty (Return t) \<and> Method t = None)"

text \<open>
  The canonical vtable of a class, as the layout oracle supplies it: the
  component sequence, and the thunks as (component index, thunk) pairs.  An RTTI
  component carries the \<open>getTypeDeclType\<close> of the class it refers to.
\<close>

datatype clang_VTableComponent =
    CK_VCallOffset int
  | CK_VBaseOffset int
  | CK_OffsetToTop int
  | CK_RTTI QualType
  | CK_FunctionPointer CXXMethodDecl
  | CK_CompleteDtorPointer CXXMethodDecl
  | CK_DeletingDtorPointer CXXMethodDecl
  | CK_UnusedFunctionPointer CXXMethodDecl

record VTableLayout =
  vtable_components :: "clang_VTableComponent list"
  vtable_thunks :: "(nat \<times> ThunkInfo) list"

text \<open>
  A record definition with the layout the compiler computed for it.  Bases,
  the record types of members and the primary base are record definitions
  themselves.  \<open>isCXXRecordDecl\<close> says whether \<open>dyn_cast<CXXRecordDecl>\<close>
  succeeds.  A class is polymorphic when it declares or inherits a virtual
  function, and the compiler has \<open>isDynamicClass\<close> hold exactly when the class
  is polymorphic or has a virtual base; the extractor reads \<open>isDynamicClass\<close>
  only.  Offsets and sizes of a layout are never negative; base offsets
  are in bytes, field offsets in bits, and \<open>FieldOffsets\<close> has one entry for
  every element of \<open>RecordDecl_fields\<close>, unnamed bit-fields included, at that element's
  position in the list.
\<close>

datatype RecordDecl = RecordDecl
    (Record_TagDecl: TagDecl)
    (isAnonymousStructOrUnion: bool)
    (getTagKind: TagTypeKind)
    (isCXXRecordDecl: bool)
    (isDynamicClass: bool)
    (isPolymorphic: bool)
    (hasDirectFields: bool)
    (bases: "CXXBaseSpecifier list")
    (vbases: "CXXBaseSpecifier list")
    (RecordDecl_fields: "FieldDecl list")
    (getASTRecordLayout: ASTRecordLayout)
    (getVTableLayout: VTableLayout)
and CXXBaseSpecifier = CXXBaseSpecifier
    (isVirtual: bool)
    (getAsCXXRecordDecl: RecordDecl)
and FieldDecl = FieldDecl
    (isUnnamedBitfield: bool)
    (isBitField: bool)
    (getBitWidthValue: nat)
    (Field_getType: QualType)
    (getAsRecordDecl: "RecordDecl option")
    (getNameAsString: string)
and ASTRecordLayout = ASTRecordLayout
    (getSize: nat)
    (getDataSize: nat)
    (getAlignment: nat)
    (getPrimaryBase: "RecordDecl option")
    (BaseOffsets: "(RecordDecl \<times> nat) list")
    (VBaseOffsets: "(RecordDecl \<times> nat) list")
    (FieldOffsets: "nat list")

definition isUnion :: "RecordDecl \<Rightarrow> bool" where
  "isUnion D = (getTagKind D = TTK_Union)"

text \<open>
  The layout's lookups.  The compiler records an offset for every direct
  non-virtual base, every virtual base and every field, so the default below
  is never taken on a layout the compiler produced.
\<close>

definition getBaseClassOffset :: "ASTRecordLayout \<Rightarrow> RecordDecl \<Rightarrow> nat" where
  "getBaseClassOffset layout Base =
     (case map_of (BaseOffsets layout) Base of Some off \<Rightarrow> off | None \<Rightarrow> 0)"

definition getVBaseClassOffset :: "ASTRecordLayout \<Rightarrow> RecordDecl \<Rightarrow> nat" where
  "getVBaseClassOffset layout VBase =
     (case map_of (VBaseOffsets layout) VBase of Some off \<Rightarrow> off | None \<Rightarrow> 0)"

definition getFieldOffset :: "ASTRecordLayout \<Rightarrow> nat \<Rightarrow> nat" where
  "getFieldOffset layout FieldNo =
     (if FieldNo < length (FieldOffsets layout) then FieldOffsets layout ! FieldNo else 0)"

text \<open>
  The per-translation-unit context: the C++ ABI family of the target, the
  width of a character in bits, the size of a type in characters, and the
  language options, given as the printing policy built from them.
\<close>

record ASTContext =
  isItaniumFamily :: bool
  getCharWidth :: nat
  getTypeSizeInChars :: "QualType \<Rightarrow> nat"
  getLangOpts :: PrintingPolicy

definition toCharUnitsFromBits :: "ASTContext \<Rightarrow> nat \<Rightarrow> nat" where
  "toCharUnitsFromBits ctx BitSize = BitSize div getCharWidth ctx"

text \<open>
  The declaration stream of a translation unit: each visited declaration is
  an enum or a record declaration, given by what \<open>getDefinition()\<close> returns for
  it (\<open>None\<close> when the declaration has no definition).
\<close>

datatype Decl =
    VisitEnumDecl "EnumDecl option"
  | VisitRecordDecl "RecordDecl option"

record TranslationUnit =
  Ctx :: ASTContext
  decls :: "Decl list"

section \<open>ComplexType.h\<close>

datatype ComplexType =
    ComplexTypeName string bool bool
  | ComplexTypePointer ComplexType
  | ComplexTypeArray ComplexType nat
  | ComplexTypeFunction "ComplexType list" ComplexType
  | ComplexTypeMemberPointer ComplexType ComplexType string
  | ComplexTypeAtomic ComplexType

section \<open>Record.h\<close>

record Enumerator =
  Enumerator_identifier :: string
  Enumerator_value :: string

record Enum =
  Enum_is_scoped :: bool
  Enum_is_anonymous :: bool
  underlying_type_size :: nat
  Enum_name :: string
  underlying_type_name :: string
  Enum_enumerators :: "Enumerator list"

record FunctionPointer =
  is_thunk :: bool
  is_const :: bool
  return_adjustment :: int
  return_adjustment_vbase_offset_offset :: int
  this_adjustment :: int
  this_adjustment_vcall_offset_offset :: int
  repr :: string
  function_name :: string
  func_type :: ComplexType

datatype VTableComponent =
    VCallOffset int
  | VBaseOffset int
  | OffsetToTop int
  | RTTI string
  | FunctionPointer FunctionPointer
  | CompleteDtorPointer FunctionPointer
  | DeletingDtorPointer FunctionPointer

record VTable =
  components :: "VTableComponent list"

text \<open>
  The payload of a field.  A \<open>MemberVariable\<close> has its bit-field width (0 when
  it is not a bit-field), its flattened type, its type name and its name; a
  \<open>Base\<close> has \<open>is_primary\<close>, \<open>is_virtual\<close> and the type name.
\<close>

datatype Field_data =
    monostate
  | MemberVariable nat ComplexType string string
  | Base bool bool string
  | VTablePointer

record Field =
  offset :: nat
  data :: Field_data

datatype Record_Kind = Class | Struct | Union

record Record =
  is_anonymous :: bool
  kind :: Record_Kind
  Record_name :: string
  Record_size :: nat
  data_size :: nat
  alignment :: nat
  Record_fields :: "Field list"
  vtable :: "VTable option"

record ParseResult =
  error :: string
  enums :: "Enum list"
  records :: "Record list"

definition ParseResult_init :: ParseResult where
  "ParseResult_init = \<lparr>error = [], enums = [], records = []\<rparr>"

definition Fail :: "string \<Rightarrow> ParseResult" where
  "Fail msg = ParseResult_init\<lparr>error := msg\<rparr>"

definition AddErrorContext :: "string \<Rightarrow> ParseResult \<Rightarrow> ParseResult" where
  "AddErrorContext msg result =
     result\<lparr>error := msg @ (if error result = [] then [] else '': '') @ error result\<rparr>"

record ParseConfig =
  inline_empty_structs :: bool

section \<open>RecordImpl.cpp: GetCStyleOperatorName\<close>

text \<open>The switch of the source, one equation for each case label.\<close>

fun GetCStyleOperatorName_switch :: "OverloadedOperatorKind \<Rightarrow> string" where
  "GetCStyleOperatorName_switch OO_None = []"
| "GetCStyleOperatorName_switch OO_New = ''__op_new''"
| "GetCStyleOperatorName_switch OO_Delete = ''__op_delete''"
| "GetCStyleOperatorName_switch OO_Array_New = ''__op_array_new''"
| "GetCStyleOperatorName_switch OO_Array_Delete = ''__op_array_delete''"
| "GetCStyleOperatorName_switch OO_Plus = ''__op_plus''"
| "GetCStyleOperatorName_switch OO_Minus = ''__op_minus''"
| "GetCStyleOperatorName_switch OO_Star = ''__op_star''"
| "GetCStyleOperatorName_switch OO_Slash = ''__op_slash''"
| "GetCStyleOperatorName_switch OO_Percent = ''__op_percent''"
| "GetCStyleOperatorName_switch OO_Caret = ''__op_caret''"
| "GetCStyleOperatorName_switch OO_Amp = ''__op_amp''"
| "GetCStyleOperatorName_switch OO_Pipe = ''__op_pipe''"
| "GetCStyleOperatorName_switch OO_Tilde = ''__op_tilde''"
| "GetCStyleOperatorName_switch OO_Exclaim = ''__op_exclaim''"
| "GetCStyleOperatorName_switch OO_Equal = ''__op_eq''"
| "GetCStyleOperatorName_switch OO_Less = ''__op_lt''"
| "GetCStyleOperatorName_switch OO_Greater = ''__op_gt;''"
| "GetCStyleOperatorName_switch OO_PlusEqual = ''__op_plus_equal''"
| "GetCStyleOperatorName_switch OO_MinusEqual = ''__op_minus_equal''"
| "GetCStyleOperatorName_switch OO_StarEqual = ''__op_star_equal''"
| "GetCStyleOperatorName_switch OO_SlashEqual = ''__op_slash_equal''"
| "GetCStyleOperatorName_switch OO_PercentEqual = ''__op_percent_equal''"
| "GetCStyleOperatorName_switch OO_CaretEqual = ''__op_caret_equal''"
| "GetCStyleOperatorName_switch OO_AmpEqual = ''__op_amp_equal''"
| "GetCStyleOperatorName_switch OO_PipeEqual = ''__op_pipe_equal''"
| "GetCStyleOperatorName_switch OO_LessLess = ''__op_lt_lt''"
| "GetCStyleOperatorName_switch OO_GreaterGreater = ''__op_gt_gt''"
| "GetCStyleOperatorName_switch OO_LessLessEqual = ''__op_lt_lt_eq''"
| "GetCStyleOperatorName_switch OO_GreaterGreaterEqual = ''__op_gt_gt_eq''"
| "GetCStyleOperatorName_switch OO_EqualEqual = ''__op_eq_eq''"
| "GetCStyleOperatorName_switch OO_ExclaimEqual = ''__op_exclaim_eq''"
| "GetCStyleOperatorName_switch OO_LessEqual = ''__op_leq''"
| "GetCStyleOperatorName_switch OO_GreaterEqual = ''__op_geq''"
| "GetCStyleOperatorName_switch OO_Spaceship = ''__op_spaceship''"
| "GetCStyleOperatorName_switch OO_AmpAmp = ''__op_amp_amp''"
| "GetCStyleOperatorName_switch OO_PipePipe = ''__op_pipe_pipe''"
| "GetCStyleOperatorName_switch OO_PlusPlus = ''__op_plus_plus''"
| "GetCStyleOperatorName_switch OO_MinusMinus = ''__op_minus_minus''"
| "GetCStyleOperatorName_switch OO_Comma = ''__op_comma''"
| "GetCStyleOperatorName_switch OO_ArrowStar = ''__op_arrow_star''"
| "GetCStyleOperatorName_switch OO_Arrow = ''__op_arrow''"
| "GetCStyleOperatorName_switch OO_Call = ''__op_call''"
| "GetCStyleOperatorName_switch OO_Subscript = ''__op_subscript''"
| "GetCStyleOperatorName_switch OO_Conditional = ''__op_conditional''"
| "GetCStyleOperatorName_switch OO_Coawait = ''__op_coawait''"
| "GetCStyleOperatorName_switch NUM_OVERLOADED_OPERATORS = []"

definition GetCStyleOperatorName :: "CXXMethodDecl \<Rightarrow> string" where
  "GetCStyleOperatorName func =
     (if \<not> isOverloadedOperator func then [] else GetCStyleOperatorName_switch (getOverloadedOperator func))"

section \<open>Number formatting\<close>

text \<open>
  \<open>fmt_hex\<close> is the format \<open>{:#x}\<close> of a signed integer (sign, then \<open>0x\<close>, then
  lower-case digits); \<open>APSInt_toString\<close> is the decimal text of an enumerator
  value.
\<close>

definition digit_char :: "nat \<Rightarrow> char" where
  "digit_char d = ''0123456789abcdef'' ! d"

function digits_of_nat :: "nat \<Rightarrow> nat \<Rightarrow> string" where
  "digits_of_nat b n =
     (if b < 2 \<or> n < b then [digit_char n] else digits_of_nat b (n div b) @ [digit_char (n mod b)])"
  by pat_completeness auto
termination
  by (relation "measure snd") auto

declare digits_of_nat.simps [simp del]

definition fmt_hex :: "int \<Rightarrow> string" where
  "fmt_hex x = (if x < 0 then ''-'' else []) @ ''0x'' @ digits_of_nat 16 (nat \<bar>x\<bar>)"

definition APSInt_toString :: "int \<Rightarrow> string" where
  "APSInt_toString x = (if x < 0 then ''-'' else []) @ digits_of_nat 10 (nat \<bar>x\<bar>)"

section \<open>RecordImpl.cpp: TranslateToComplexType\<close>

text \<open>
  The chain of \<open>getAs\<close> tests of the source is a case distinction on the node
  of the canonical type; the tests are mutually exclusive, and the equations
  keep their order.  \<open>ASTContext::getAsConstantArrayType\<close> moves the qualifiers
  of an array type onto its element type, which the first equation writes out.
  In the last equation \<open>removeLocalFastQualifiers\<close> clears the qualifiers before
  the type is printed.
\<close>

fun TranslateToComplexType :: "PrintingPolicy \<Rightarrow> QualType \<Rightarrow> ComplexType" where
  "TranslateToComplexType policy (QualType c v (ConstantArrayType (QualType c' v' elem) n)) =
     ComplexTypeArray (TranslateToComplexType policy (QualType (c \<or> c') (v \<or> v') elem)) n"
| "TranslateToComplexType policy (QualType c v (MemberPointerType cls pointee)) =
     ComplexTypeMemberPointer
       (TranslateToComplexType policy cls)
       (TranslateToComplexType policy pointee)
       (policy (QualType c v (MemberPointerType cls pointee)))"
| "TranslateToComplexType policy (QualType c v (PointerType pointee)) =
     ComplexTypePointer (TranslateToComplexType policy pointee)"
| "TranslateToComplexType policy (QualType c v (ReferenceType pointee)) =
     ComplexTypePointer (TranslateToComplexType policy pointee)"
| "TranslateToComplexType policy (QualType c v (FunctionProtoType param_types return_type)) =
     ComplexTypeFunction
       (map (TranslateToComplexType policy) param_types)
       (TranslateToComplexType policy return_type)"
| "TranslateToComplexType policy (QualType c v (AtomicType val)) =
     ComplexTypeAtomic (TranslateToComplexType policy val)"
| "TranslateToComplexType policy (QualType c v (OtherType n)) =
     ComplexTypeName (policy (QualType False False (OtherType n))) c v"

section \<open>RecordImpl.cpp: GetThunkInfo and ParseVTable\<close>

text \<open>
  \<open>llvm::lower_bound\<close> is a binary search; on a range that is partitioned by
  the comparison, as the thunks of a layout are (they are sorted by index), it
  returns the position of the first entry whose index is not below the key.
  The remaining range from that position on is what is computed here.
\<close>

definition lower_bound :: "(nat \<times> ThunkInfo) list \<Rightarrow> nat \<Rightarrow> (nat \<times> ThunkInfo) list" where
  "lower_bound thunks key = dropWhile (\<lambda>entry. fst entry < key) thunks"

definition GetThunkInfo :: "VTableLayout \<Rightarrow> nat \<Rightarrow> ThunkInfo option" where
  "GetThunkInfo layout idx =
     (case lower_bound (vtable_thunks layout) idx of
        [] \<Rightarrow> None
      | it # _ \<Rightarrow> if fst it \<noteq> idx then None else Some (snd it))"

text \<open>
  The body of the case shared by the four function-pointer kinds, up to the
  inner switch, in the order of the source: the name, the user-friendly
  \<open>repr\<close> with its annotations, the entry, and the thunk information filled into
  the entry.  \<open>thunk\<close> is the result of \<open>GetThunkInfo\<close> for the component's index.
\<close>

definition FunctionPointer_name :: "CXXMethodDecl \<Rightarrow> string" where
  "FunctionPointer_name func =
     (let name = getName func
      in if name = [] \<and> isOverloadedOperator func then GetCStyleOperatorName func else name)"

definition thunk_repr :: "ThunkInfo \<Rightarrow> string" where
  "thunk_repr t =
     (if \<not> Return_isEmpty (Return t) then
        '' [return adjustment: '' @ fmt_hex (Return_NonVirtual (Return t))
          @ (if VBaseOffsetOffset (Return t) \<noteq> 0
             then '', vbase offset offset: '' @ fmt_hex (VBaseOffsetOffset (Return t))
             else [])
          @ '']''
      else [])
     @ (if \<not> This_isEmpty (This t) then
        '' [this adjustment: '' @ fmt_hex (This_NonVirtual (This t))
          @ (if VCallOffsetOffset (This t) \<noteq> 0
             then '', vcall offset offset: '' @ fmt_hex (VCallOffsetOffset (This t))
             else [])
          @ '']''
      else [])"

definition FunctionPointer_repr ::
  "clang_VTableComponent \<Rightarrow> CXXMethodDecl \<Rightarrow> ThunkInfo option \<Rightarrow> string" where
  "FunctionPointer_repr component func thunk =
     PrettyFunctionNoVirtual func
     @ (case component of CK_CompleteDtorPointer _ \<Rightarrow> '' [complete]'' | _ \<Rightarrow> [])
     @ (case component of CK_DeletingDtorPointer _ \<Rightarrow> '' [deleting]'' | _ \<Rightarrow> [])
     @ (if isPure func then '' [pure]'' else [])
     @ (case thunk of
          None \<Rightarrow> []
        | Some t \<Rightarrow> if ThunkInfo_isEmpty t then [] else thunk_repr t)"

definition fill_thunk_information :: "ThunkInfo option \<Rightarrow> FunctionPointer \<Rightarrow> FunctionPointer" where
  "fill_thunk_information thunk entry =
     (case thunk of
        None \<Rightarrow> entry
      | Some t \<Rightarrow>
          if ThunkInfo_isEmpty t then entry
          else
            (let entry = entry\<lparr>is_thunk := True\<rparr>;
                 entry =
                   (if \<not> Return_isEmpty (Return t) then
                      entry\<lparr>return_adjustment := Return_NonVirtual (Return t),
                            return_adjustment_vbase_offset_offset := VBaseOffsetOffset (Return t)\<rparr>
                    else entry);
                 entry =
                   (if \<not> This_isEmpty (This t) then
                      entry\<lparr>this_adjustment := This_NonVirtual (This t),
                            this_adjustment_vcall_offset_offset := VCallOffsetOffset (This t)\<rparr>
                    else entry)
             in entry))"

definition FunctionPointer_entry ::
  "PrintingPolicy \<Rightarrow> VTableLayout \<Rightarrow> nat \<Rightarrow> clang_VTableComponent \<Rightarrow> CXXMethodDecl \<Rightarrow> FunctionPointer" where
  "FunctionPointer_entry policy layout idx component func =
     (let name = FunctionPointer_name func;
          thunk = GetThunkInfo layout idx;
          repr = FunctionPointer_repr component func thunk;
          entry =
            \<lparr>is_thunk = False, is_const = isConst func,
             return_adjustment = 0, return_adjustment_vbase_offset_offset = 0,
             this_adjustment = 0, this_adjustment_vcall_offset_offset = 0,
             repr = repr, function_name = name,
             func_type = TranslateToComplexType policy (getType func)\<rparr>
      in fill_thunk_information thunk entry)"

text \<open>One iteration of the loop over the enumerated components: the outer switch.\<close>

fun ParseVTable_component ::
  "PrintingPolicy \<Rightarrow> VTableLayout \<Rightarrow> nat \<Rightarrow> clang_VTableComponent \<Rightarrow> VTableComponent" where
  "ParseVTable_component policy layout idx (CK_VCallOffset off) = VCallOffset off"
| "ParseVTable_component policy layout idx (CK_VBaseOffset off) = VBaseOffset off"
| "ParseVTable_component policy layout idx (CK_OffsetToTop off) = OffsetToTop off"
| "ParseVTable_component policy layout idx (CK_RTTI type) = RTTI (policy type)"
| "ParseVTable_component policy layout idx (CK_FunctionPointer func) =
     FunctionPointer (FunctionPointer_entry policy layout idx (CK_FunctionPointer func) func)"
| "ParseVTable_component policy layout idx (CK_CompleteDtorPointer func) =
     CompleteDtorPointer (FunctionPointer_entry policy layout idx (CK_CompleteDtorPointer func) func)"
| "ParseVTable_component policy layout idx (CK_DeletingDtorPointer func) =
     DeletingDtorPointer (FunctionPointer_entry policy layout idx (CK_DeletingDtorPointer func) func)"
| "ParseVTable_component policy layout idx (CK_UnusedFunctionPointer func) =
     FunctionPointer (FunctionPointer_entry policy layout idx (CK_UnusedFunctionPointer func) func)"

text \<open>The loop: \<open>idx\<close> is the index of the first remaining component.\<close>

fun ParseVTable_loop ::
  "PrintingPolicy \<Rightarrow> VTableLayout \<Rightarrow> nat \<Rightarrow> clang_VTableComponent list \<Rightarrow> VTableComponent list" where
  "ParseVTable_loop policy layout idx [] = []"
| "ParseVTable_loop policy layout idx (component # rest) =
     ParseVTable_component policy layout idx component # ParseVTable_loop policy layout (Suc idx) rest"

text \<open>
  The vtable context is the Itanium one exactly when the target's ABI is of
  the Itanium family.  \<open>None\<close> is the null pointer the source returns.
\<close>

definition ParseVTable :: "ASTContext \<Rightarrow> RecordDecl \<Rightarrow> VTable option" where
  "ParseVTable ctx D =
     (if \<not> isItaniumFamily ctx then None
      else if \<not> isDynamicClass D then None
      else
        (let layout = getVTableLayout D;
             policy = getLangOpts ctx
         in Some \<lparr>components = ParseVTable_loop policy layout 0 (vtable_components layout)\<rparr>))"

section \<open>RecordImpl.cpp: ParseContextImpl\<close>

text \<open>
  The mutable state of one extraction run: the accumulating result and the set
  of processed names.  The configuration is constant and passed alongside.
\<close>

record ParseContextImpl =
  m_result :: ParseResult
  m_processed :: "string set"

definition Make :: ParseContextImpl where
  "Make = \<lparr>m_result = ParseResult_init, m_processed = {}\<rparr>"

text \<open>The gate.  It returns its verdict and the state, updated when the name is new.\<close>

definition CanProcess ::
  "ASTContext \<Rightarrow> TagDecl option \<Rightarrow> ParseContextImpl \<Rightarrow> bool \<times> ParseContextImpl" where
  "CanProcess ctx D st =
     (case D of
        None \<Rightarrow> (False, st)
      | Some d \<Rightarrow>
          if isInvalidDecl d then (False, st)
          else if \<not> isCompleteDefinition d then (False, st)
          else if isTemplated d then (False, st)
          else
            (let policy = getLangOpts ctx;
                 name = policy (getTypeDeclType d)
             in if name \<in> m_processed st then (False, st)
                else (True, st\<lparr>m_processed := insert name (m_processed st)\<rparr>)))"

definition ShouldInlineEmptyRecord :: "ParseConfig \<Rightarrow> RecordDecl \<Rightarrow> bool" where
  "ShouldInlineEmptyRecord m_config D =
     (if \<not> inline_empty_structs m_config then False
      else if getDataSize (getASTRecordLayout D) = 0 then True
      else if \<not> isCXXRecordDecl D then True
      else \<not> isDynamicClass D \<and> bases D = [] \<and> vbases D = [] \<and> \<not> hasDirectFields D)"

definition emplace_back :: "Field \<Rightarrow> Record \<Rightarrow> Record" where
  "emplace_back field record = record\<lparr>Record_fields := Record_fields record @ [field]\<rparr>"

definition dyn_cast_CXXRecordDecl :: "RecordDecl \<Rightarrow> RecordDecl option" where
  "dyn_cast_CXXRecordDecl D = (if isCXXRecordDecl D then Some D else None)"

text \<open>The loop over the sorted non-virtual bases.\<close>

fun AddBases_loop ::
  "ParseConfig \<Rightarrow> PrintingPolicy \<Rightarrow> nat \<Rightarrow> ASTRecordLayout \<Rightarrow> RecordDecl option \<Rightarrow>
   RecordDecl list \<Rightarrow> Record \<Rightarrow> Record" where
  "AddBases_loop m_config policy base_offset layout primary_base [] record = record"
| "AddBases_loop m_config policy base_offset layout primary_base (base # rest) record =
     (let off = base_offset + getBaseClassOffset layout base
      in if ShouldInlineEmptyRecord m_config base
         then AddBases_loop m_config policy base_offset layout primary_base rest record
         else AddBases_loop m_config policy base_offset layout primary_base rest
                (emplace_back
                   \<lparr>offset = off,
                    data = Base (Some base = primary_base) False
                             (policy (getTypeDeclType (Record_TagDecl base)))\<rparr>
                   record))"

text \<open>
  \<open>llvm::stable_sort\<close> with the comparison of two offsets by \<open><\<close> is the stable
  sort by the offset as key.
\<close>

definition AddBases ::
  "ParseConfig \<Rightarrow> PrintingPolicy \<Rightarrow> nat \<Rightarrow> RecordDecl option \<Rightarrow> ASTRecordLayout \<Rightarrow> Record \<Rightarrow> Record" where
  "AddBases m_config policy base_offset CXXRD layout record =
     (case CXXRD of
        None \<Rightarrow> record
      | Some D \<Rightarrow>
          (let primary_base = getPrimaryBase layout;
               record =
                 (if isDynamicClass D \<and> primary_base = None
                  then emplace_back \<lparr>offset = base_offset, data = VTablePointer\<rparr> record
                  else record);
               bases = [getAsCXXRecordDecl base. base \<leftarrow> bases D, \<not> isVirtual base];
               bases = sort_key (getBaseClassOffset layout) bases
           in AddBases_loop m_config policy base_offset layout primary_base bases record))"

fun AddVirtualBases_loop ::
  "ParseConfig \<Rightarrow> PrintingPolicy \<Rightarrow> nat \<Rightarrow> ASTRecordLayout \<Rightarrow> RecordDecl option \<Rightarrow>
   RecordDecl list \<Rightarrow> Record \<Rightarrow> Record" where
  "AddVirtualBases_loop m_config policy base_offset layout primary_base [] record = record"
| "AddVirtualBases_loop m_config policy base_offset layout primary_base (base # rest) record =
     (let off = base_offset + getVBaseClassOffset layout base
      in if ShouldInlineEmptyRecord m_config base
         then AddVirtualBases_loop m_config policy base_offset layout primary_base rest record
         else AddVirtualBases_loop m_config policy base_offset layout primary_base rest
                (emplace_back
                   \<lparr>offset = off,
                    data = Base (Some base = primary_base) True
                             (policy (getTypeDeclType (Record_TagDecl base)))\<rparr>
                   record))"

definition AddVirtualBases ::
  "ParseConfig \<Rightarrow> PrintingPolicy \<Rightarrow> nat \<Rightarrow> RecordDecl option \<Rightarrow> ASTRecordLayout \<Rightarrow> Record \<Rightarrow> Record" where
  "AddVirtualBases m_config policy base_offset CXXRD layout record =
     (case CXXRD of
        None \<Rightarrow> record
      | Some D \<Rightarrow>
          (let primary_base = getPrimaryBase layout;
               vbases = map getAsCXXRecordDecl (vbases D);
               vbases = sort_key (getVBaseClassOffset layout) vbases
           in AddVirtualBases_loop m_config policy base_offset layout primary_base vbases record))"

text \<open>
  The loop over \<open>D->fields()\<close>.  \<open>field_idx\<close> is the loop's counter: it is passed
  to \<open>getFieldOffset\<close> and then incremented, and an unnamed bit-field is skipped
  before the counter is touched.
\<close>

fun AddDataMembers_loop ::
  "ParseConfig \<Rightarrow> ASTContext \<Rightarrow> PrintingPolicy \<Rightarrow> nat \<Rightarrow> RecordDecl \<Rightarrow> ASTRecordLayout \<Rightarrow>
   nat \<Rightarrow> FieldDecl list \<Rightarrow> Record \<Rightarrow> Record" where
  "AddDataMembers_loop m_config ctx policy base_offset D layout field_idx [] record = record"
| "AddDataMembers_loop m_config ctx policy base_offset D layout field_idx (field_decl # rest) record =
     (if isUnnamedBitfield field_decl
      then AddDataMembers_loop m_config ctx policy base_offset D layout field_idx rest record
      else
        (let rel_offset_in_bits = getFieldOffset layout field_idx;
             field_idx = Suc field_idx;
             off = base_offset + toCharUnitsFromBits ctx rel_offset_in_bits
         in case getAsRecordDecl field_decl of
              Some field_record \<Rightarrow>
                if isUnion D \<or> \<not> ShouldInlineEmptyRecord m_config field_record
                then AddDataMembers_loop m_config ctx policy base_offset D layout field_idx rest
                       (emplace_back
                          \<lparr>offset = off,
                           data = MemberVariable 0
                                    (TranslateToComplexType policy (getTypeDeclType (Record_TagDecl field_record)))
                                    (policy (getTypeDeclType (Record_TagDecl field_record)))
                                    (getNameAsString field_decl)\<rparr>
                          record)
                else AddDataMembers_loop m_config ctx policy base_offset D layout field_idx rest record
            | None \<Rightarrow>
                AddDataMembers_loop m_config ctx policy base_offset D layout field_idx rest
                  (emplace_back
                     \<lparr>offset = off,
                      data = MemberVariable
                               (if isBitField field_decl then getBitWidthValue field_decl else 0)
                               (TranslateToComplexType policy (Field_getType field_decl))
                               (policy (Field_getType field_decl))
                               (getNameAsString field_decl)\<rparr>
                     record)))"

definition AddDataMembers ::
  "ParseConfig \<Rightarrow> ASTContext \<Rightarrow> PrintingPolicy \<Rightarrow> nat \<Rightarrow> RecordDecl \<Rightarrow> ASTRecordLayout \<Rightarrow>
   Record \<Rightarrow> Record" where
  "AddDataMembers m_config ctx policy base_offset D layout record =
     AddDataMembers_loop m_config ctx policy base_offset D layout 0 (RecordDecl_fields D) record"

definition AddFields ::
  "ParseConfig \<Rightarrow> ASTContext \<Rightarrow> PrintingPolicy \<Rightarrow> nat \<Rightarrow> RecordDecl \<Rightarrow> ASTRecordLayout \<Rightarrow>
   Record \<Rightarrow> Record" where
  "AddFields m_config ctx policy base_offset D layout record =
     (let CXXRD = dyn_cast_CXXRecordDecl D;
          record = AddBases m_config policy base_offset CXXRD layout record;
          record = AddDataMembers m_config ctx policy base_offset D layout record;
          record = AddVirtualBases m_config policy base_offset CXXRD layout record
      in record)"

definition HandleEnumDecl :: "ASTContext \<Rightarrow> EnumDecl option \<Rightarrow> ParseContextImpl \<Rightarrow> ParseContextImpl" where
  "HandleEnumDecl ctx D st =
     (case CanProcess ctx (map_option Enum_TagDecl D) st of
        (False, st) \<Rightarrow> st
      | (True, st) \<Rightarrow>
          (case D of
             None \<Rightarrow> st
           | Some d \<Rightarrow>
               (let policy = getLangOpts ctx;
                    underlying_type = getIntegerType d;
                    enum_def =
                      \<lparr>Enum_is_scoped = isScoped d,
                       Enum_is_anonymous = (Enum_getName d = []),
                       underlying_type_size = getTypeSizeInChars ctx underlying_type mod 256,
                       Enum_name = policy (getTypeDeclType (Enum_TagDecl d)),
                       underlying_type_name = policy underlying_type,
                       Enum_enumerators =
                         map (\<lambda>decl. \<lparr>Enumerator_identifier = fst decl,
                                      Enumerator_value = APSInt_toString (snd decl)\<rparr>)
                           (enumerators d)\<rparr>
                in st\<lparr>m_result := (m_result st)\<lparr>enums := enums (m_result st) @ [enum_def]\<rparr>\<rparr>)))"

definition Record_kind_of :: "TagTypeKind \<Rightarrow> Record_Kind" where
  "Record_kind_of k =
     (case k of
        TTK_Struct \<Rightarrow> Struct
      | TTK_Interface \<Rightarrow> Class
      | TTK_Class \<Rightarrow> Class
      | TTK_Union \<Rightarrow> Union
      | TTK_Enum \<Rightarrow> Struct)"

definition HandleRecordDecl ::
  "ParseConfig \<Rightarrow> ASTContext \<Rightarrow> RecordDecl option \<Rightarrow> ParseContextImpl \<Rightarrow> ParseContextImpl" where
  "HandleRecordDecl m_config ctx D st =
     (case CanProcess ctx (map_option Record_TagDecl D) st of
        (False, st) \<Rightarrow> st
      | (True, st) \<Rightarrow>
          (case D of
             None \<Rightarrow> st
           | Some d \<Rightarrow>
               (let CXXRD = dyn_cast_CXXRecordDecl d;
                    policy = getLangOpts ctx;
                    layout = getASTRecordLayout d
                in if ShouldInlineEmptyRecord m_config d then st
                   else
                     (let record =
                            \<lparr>is_anonymous = isAnonymousStructOrUnion d,
                             kind = Record_kind_of (getTagKind d),
                             Record_name = policy (getTypeDeclType (Record_TagDecl d)),
                             Record_size = getSize layout,
                             data_size = getDataSize layout,
                             alignment = getAlignment layout,
                             Record_fields = [],
                             vtable = None\<rparr>;
                          record = AddFields m_config ctx policy 0 d layout record;
                          record =
                            (case CXXRD of
                               Some C \<Rightarrow> record\<lparr>vtable := ParseVTable ctx C\<rparr>
                             | None \<Rightarrow> record)
                      in st\<lparr>m_result := (m_result st)\<lparr>records := records (m_result st) @ [record]\<rparr>\<rparr>))))"

section \<open>Record.cpp\<close>

text \<open>
  The visitor calls \<open>HandleEnumDecl\<close> on every enum declaration and
  \<open>HandleRecordDecl\<close> on every record declaration, in the order of the stream.
\<close>

fun Visit :: "ParseConfig \<Rightarrow> ASTContext \<Rightarrow> Decl \<Rightarrow> ParseContextImpl \<Rightarrow> ParseContextImpl" where
  "Visit m_config ctx (VisitEnumDecl D) st = HandleEnumDecl ctx D st"
| "Visit m_config ctx (VisitRecordDecl D) st = HandleRecordDecl m_config ctx D st"

fun TraverseAST :: "ParseConfig \<Rightarrow> ASTContext \<Rightarrow> Decl list \<Rightarrow> ParseContextImpl \<Rightarrow> ParseContextImpl" where
  "TraverseAST m_config ctx [] st = st"
| "TraverseAST m_config ctx (D # rest) st = TraverseAST m_config ctx rest (Visit m_config ctx D st)"

definition HandleTranslationUnit ::
  "ParseConfig \<Rightarrow> TranslationUnit \<Rightarrow> ParseContextImpl \<Rightarrow> ParseContextImpl" where
  "HandleTranslationUnit m_config tu st =
     (if \<not> isItaniumFamily (Ctx tu)
      then st\<lparr>m_result := (m_result st)\<lparr>error := ''only the Itanium C++ ABI is supported''\<rparr>\<rparr>
      else TraverseAST m_config (Ctx tu) (decls tu) st)"

text \<open>
  A tool is the translation units it runs the action on, in order, and the
  status its run returns (non-zero when a unit failed to build).
\<close>

record ClangTool =
  units :: "TranslationUnit list"
  run_status :: nat

fun run :: "ParseConfig \<Rightarrow> TranslationUnit list \<Rightarrow> ParseContextImpl \<Rightarrow> ParseContextImpl" where
  "run m_config [] st = st"
| "run m_config (tu # rest) st = run m_config rest (HandleTranslationUnit m_config tu st)"

definition ParseRecords :: "ClangTool \<Rightarrow> ParseConfig \<Rightarrow> ParseResult" where
  "ParseRecords tool config =
     (let context = run config (units tool) Make;
          result = m_result context
      in if run_status tool \<noteq> 0 then AddErrorContext ''failed to run tool'' result else result)"

text \<open>
  The overload that loads the compilation database first: the load gives
  either its error message or the tool.
\<close>

definition ParseRecords_build_dir :: "string + ClangTool \<Rightarrow> ParseConfig \<Rightarrow> ParseResult" where
  "ParseRecords_build_dir compilation_db config =
     (case compilation_db of
        Inl compilation_db_error \<Rightarrow> Fail (''failed to create compilation database: '' @ compilation_db_error)
      | Inr tool \<Rightarrow> ParseRecords tool config)"

section \<open>Properties in the words of the specification\<close>

text \<open>
  An output component has the typed form of an oracle component: offsets and
  the RTTI name are carried over, the three function-pointer kinds keep their
  tag, and an unused function pointer becomes an ordinary \<open>FunctionPointer\<close>.
\<close>

fun corresponds :: "PrintingPolicy \<Rightarrow> clang_VTableComponent \<Rightarrow> VTableComponent \<Rightarrow> bool" where
  "corresponds policy (CK_VCallOffset off) out = (out = VCallOffset off)"
| "corresponds policy (CK_VBaseOffset off) out = (out = VBaseOffset off)"
| "corresponds policy (CK_OffsetToTop off) out = (out = OffsetToTop off)"
| "corresponds policy (CK_RTTI type) out = (out = RTTI (policy type))"
| "corresponds policy (CK_FunctionPointer func) out =
     (case out of
        FunctionPointer e \<Rightarrow>
          is_const e = isConst func \<and> func_type e = TranslateToComplexType policy (getType func)
      | _ \<Rightarrow> False)"
| "corresponds policy (CK_UnusedFunctionPointer func) out =
     (case out of
        FunctionPointer e \<Rightarrow>
          is_const e = isConst func \<and> func_type e = TranslateToComplexType policy (getType func)
      | _ \<Rightarrow> False)"
| "corresponds policy (CK_CompleteDtorPointer func) out =
     (case out of
        CompleteDtorPointer e \<Rightarrow>
          is_const e = isConst func \<and> func_type e = TranslateToComplexType policy (getType func)
      | _ \<Rightarrow> False)"
| "corresponds policy (CK_DeletingDtorPointer func) out =
     (case out of
        DeletingDtorPointer e \<Rightarrow>
          is_const e = isConst func \<and> func_type e = TranslateToComplexType policy (getType func)
      | _ \<Rightarrow> False)"

text \<open>
  The registry's rejects: a declaration passes them when it is valid, is a
  complete definition and is not an uninstantiated template pattern.  The
  registry's key is the printed name of the declaration's type.
\<close>

definition passes_rejects :: "TagDecl \<Rightarrow> bool" where
  "passes_rejects d = (\<not> isInvalidDecl d \<and> isCompleteDefinition d \<and> \<not> isTemplated d)"

definition qualified_name :: "ASTContext \<Rightarrow> TagDecl \<Rightarrow> string" where
  "qualified_name ctx d = getLangOpts ctx (getTypeDeclType d)"

fun Decl_definition :: "Decl \<Rightarrow> TagDecl option" where
  "Decl_definition (VisitEnumDecl D) = map_option Enum_TagDecl D"
| "Decl_definition (VisitRecordDecl D) = map_option Record_TagDecl D"

text \<open>
  The empty-record policy as the specification words it: the data size is
  zero, or the record has no vtable, no bases, no virtual bases and no direct
  fields.
\<close>

definition empty_record_policy :: "RecordDecl \<Rightarrow> bool" where
  "empty_record_policy D =
     (getDataSize (getASTRecordLayout D) = 0
      \<or> (\<not> isDynamicClass D \<and> bases D = [] \<and> vbases D = [] \<and> \<not> hasDirectFields D))"

text \<open>Every record of the result has its name in the processed set.\<close>

definition names_registered :: "ParseContextImpl \<Rightarrow> bool" where
  "names_registered st = (Record_name ` set (records (m_result st)) \<subseteq> m_processed st)"

text \<open>
  A direct member is emitted unless it is an unnamed bit-field, or its type is
  a record that the inlining policy drops and the enclosing record is not a
  union.
\<close>

definition member_kept :: "ParseConfig \<Rightarrow> RecordDecl \<Rightarrow> FieldDecl \<Rightarrow> bool" where
  "member_kept m_config D fd =
     (case getAsRecordDecl fd of
        None \<Rightarrow> True
      | Some field_record \<Rightarrow> isUnion D \<or> \<not> ShouldInlineEmptyRecord m_config field_record)"

fun is_MemberVariable :: "Field \<Rightarrow> bool" where
  "is_MemberVariable f = (case data f of MemberVariable w T tn n \<Rightarrow> True | _ \<Rightarrow> False)"

fun MemberVariable_name :: "Field \<Rightarrow> string" where
  "MemberVariable_name f = (case data f of MemberVariable w T tn n \<Rightarrow> n | _ \<Rightarrow> [])"

text \<open>
  The direct non-virtual bases and the virtual bases of a record, in the order
  of their declaration; a record that is not a C++ class has neither.
\<close>

definition non_virtual_bases :: "RecordDecl \<Rightarrow> RecordDecl list" where
  "non_virtual_bases D =
     (if isCXXRecordDecl D then [getAsCXXRecordDecl base. base \<leftarrow> bases D, \<not> isVirtual base] else [])"

definition virtual_bases :: "RecordDecl \<Rightarrow> RecordDecl list" where
  "virtual_bases D = (if isCXXRecordDecl D then map getAsCXXRecordDecl (vbases D) else [])"

text \<open>
  \<open>ys\<close> is \<open>xs\<close> stable-sorted by ascending key: the same elements, keys
  ascending, and elements of equal key in their order in \<open>xs\<close>.
\<close>

definition stable_sorted_by :: "('a \<Rightarrow> nat) \<Rightarrow> 'a list \<Rightarrow> 'a list \<Rightarrow> bool" where
  "stable_sorted_by key xs ys =
     (mset ys = mset xs \<and> sorted (map key ys)
      \<and> (\<forall>k \<in> key ` set xs. filter (\<lambda>x. key x = k) ys = filter (\<lambda>x. key x = k) xs))"

text \<open>
  The field of a base: at \<open>base_offset\<close> plus the base's offset in the layout,
  with \<open>is_primary\<close> when the base is the layout's primary base, and the type
  name of the base.
\<close>

definition Base_field ::
  "PrintingPolicy \<Rightarrow> nat \<Rightarrow> (RecordDecl \<Rightarrow> nat) \<Rightarrow> RecordDecl option \<Rightarrow> bool \<Rightarrow> RecordDecl \<Rightarrow> Field" where
  "Base_field policy base_offset off primary_base is_virtual b =
     \<lparr>offset = base_offset + off b,
      data = Base (Some b = primary_base) is_virtual (policy (getTypeDeclType (Record_TagDecl b)))\<rparr>"


text \<open>
  The record that \<open>HandleRecordDecl\<close> appends for a declaration it does not
  skip: the header it fills in first, then the fields, then the vtable.
\<close>

definition Record_header :: "ASTContext \<Rightarrow> RecordDecl \<Rightarrow> Record" where
  "Record_header ctx d =
     \<lparr>is_anonymous = isAnonymousStructOrUnion d,
      kind = Record_kind_of (getTagKind d),
      Record_name = getLangOpts ctx (getTypeDeclType (Record_TagDecl d)),
      Record_size = getSize (getASTRecordLayout d),
      data_size = getDataSize (getASTRecordLayout d),
      alignment = getAlignment (getASTRecordLayout d),
      Record_fields = [], vtable = None\<rparr>"

definition emitted_Record :: "ParseConfig \<Rightarrow> ASTContext \<Rightarrow> RecordDecl \<Rightarrow> Record" where
  "emitted_Record m_config ctx d =
     (let rec = AddFields m_config ctx (getLangOpts ctx) 0 d (getASTRecordLayout d)
                  (Record_header ctx d)
      in case dyn_cast_CXXRecordDecl d of
           Some C \<Rightarrow> rec\<lparr>vtable := ParseVTable ctx C\<rparr>
         | None \<Rightarrow> rec)"

section \<open>Example declarations\<close>

text \<open>
  Concrete inputs on which the theorems below are instantiated.  The example
  policy prints a plain type by its spelling.
\<close>

definition sample_policy :: PrintingPolicy where
  "sample_policy T = (case T of QualType c v (OtherType n) \<Rightarrow> n | _ \<Rightarrow> ''<type>'')"

definition sample_ctx :: ASTContext where
  "sample_ctx =
     \<lparr>isItaniumFamily = True, getCharWidth = 8, getTypeSizeInChars = (\<lambda>T. 4),
      getLangOpts = sample_policy\<rparr>"

definition named :: "string \<Rightarrow> QualType" where
  "named n = QualType False False (OtherType n)"

definition sample_tag :: "string \<Rightarrow> TagDecl" where
  "sample_tag n =
     \<lparr>isInvalidDecl = False, isCompleteDefinition = True, isTemplated = False,
      getTypeDeclType = named n\<rparr>"

definition no_vtable :: VTableLayout where
  "no_vtable = \<lparr>vtable_components = [], vtable_thunks = []\<rparr>"

definition int_field :: "string \<Rightarrow> FieldDecl" where
  "int_field n = FieldDecl False False 0 (named ''int'') None n"

text \<open>A class with two vtable groups; the overrider in the second group is a \<open>this\<close>-adjusting thunk.\<close>

definition sample_method :: CXXMethodDecl where
  "sample_method =
     \<lparr>getName = ''f'', getOverloadedOperator = OO_None,
      PrettyFunctionNoVirtual = ''void C::f()'', isPure = False, isConst = False,
      getType = QualType False False (FunctionProtoType [] (named ''void''))\<rparr>"

definition sample_thunk :: ThunkInfo where
  "sample_thunk =
     \<lparr>This = \<lparr>This_NonVirtual = - 8, VCallOffsetOffset = 0\<rparr>,
      Return = \<lparr>Return_NonVirtual = 0, VBaseOffsetOffset = 0\<rparr>,
      Method = None\<rparr>"

definition sample_vtable :: VTableLayout where
  "sample_vtable =
     \<lparr>vtable_components =
        [CK_OffsetToTop 0, CK_RTTI (named ''C''), CK_FunctionPointer sample_method,
         CK_OffsetToTop (- 8), CK_RTTI (named ''C''), CK_FunctionPointer sample_method],
      vtable_thunks = [(5, sample_thunk)]\<rparr>"

definition sample_class :: RecordDecl where
  "sample_class =
     RecordDecl (sample_tag ''C'') False TTK_Class True True True False [] [] []
       (ASTRecordLayout 16 16 8 None [] [] []) sample_vtable"

text \<open>Scenario 2 of the specification: \<open>struct Empty {}; struct Derived : Empty { int x; };\<close>\<close>

definition Empty_decl :: RecordDecl where
  "Empty_decl =
     RecordDecl (sample_tag ''Empty'') False TTK_Struct True False False False [] [] []
       (ASTRecordLayout 1 1 1 None [] [] []) no_vtable"

definition Derived_decl :: RecordDecl where
  "Derived_decl =
     RecordDecl (sample_tag ''Derived'') False TTK_Struct True False False True
       [CXXBaseSpecifier False Empty_decl] [] [int_field ''x'']
       (ASTRecordLayout 4 4 4 None [(Empty_decl, 0)] [] [0]) no_vtable"

definition inlining_on :: ParseConfig where
  "inlining_on = \<lparr>inline_empty_structs = True\<rparr>"

definition inlining_off :: ParseConfig where
  "inlining_off = \<lparr>inline_empty_structs = False\<rparr>"

text \<open>Scenario 1: \<open>enum class Color : unsigned char { Red = 0, Green = 1 };\<close>\<close>

definition Color_decl :: EnumDecl where
  "Color_decl =
     \<lparr>Enum_TagDecl = sample_tag ''Color'', isScoped = True, Enum_getName = ''Color'',
      getIntegerType = named ''unsigned char'', enumerators = [(''Red'', 0), (''Green'', 1)]\<rparr>"

text \<open>A translation unit for a target whose C++ ABI is not of the Itanium family.\<close>

definition microsoft_unit :: TranslationUnit where
  "microsoft_unit =
     \<lparr>Ctx = sample_ctx\<lparr>isItaniumFamily := False\<rparr>,
      decls = [VisitEnumDecl (Some Color_decl), VisitRecordDecl (Some Derived_decl)]\<rparr>"

text \<open>\<open>struct Padded { int a; int : 32; int b; };\<close> with fields at bits 0, 32 and 64.\<close>

definition Padded_decl :: RecordDecl where
  "Padded_decl =
     RecordDecl (sample_tag ''Padded'') False TTK_Struct True False False True [] []
       [int_field ''a'', FieldDecl True True 32 (named ''int'') None [], int_field ''b'']
       (ASTRecordLayout 12 12 4 None [] [] [0, 32, 64]) no_vtable"


text \<open>
  \<open>struct A { int a; }; struct B { virtual void f(); }; struct V { int v; };
  struct Multi : A, B, virtual V { int c; };\<close>  The dynamic base \<open>B\<close> is the primary
  base at offset 0, before \<open>A\<close> at offset 8 although it is declared after it.
\<close>

definition A_decl :: RecordDecl where
  "A_decl =
     RecordDecl (sample_tag ''A'') False TTK_Struct True False False True [] [] [int_field ''a'']
       (ASTRecordLayout 4 4 4 None [] [] [0]) no_vtable"

definition B_decl :: RecordDecl where
  "B_decl =
     RecordDecl (sample_tag ''B'') False TTK_Struct True True True False [] [] []
       (ASTRecordLayout 8 8 8 None [] [] []) no_vtable"

definition V_decl :: RecordDecl where
  "V_decl =
     RecordDecl (sample_tag ''V'') False TTK_Struct True False False True [] [] [int_field ''v'']
       (ASTRecordLayout 4 4 4 None [] [] [0]) no_vtable"

definition Multi_layout :: ASTRecordLayout where
  "Multi_layout =
     ASTRecordLayout 24 20 8 (Some B_decl) [(A_decl, 8), (B_decl, 0)] [(V_decl, 16)] [96]"

definition Multi_decl :: RecordDecl where
  "Multi_decl =
     RecordDecl (sample_tag ''Multi'') False TTK_Struct True True True True
       [CXXBaseSpecifier False A_decl, CXXBaseSpecifier False B_decl, CXXBaseSpecifier True V_decl]
       [CXXBaseSpecifier True V_decl] [int_field ''c'']
       Multi_layout no_vtable"


text \<open>A translation unit that declares \<open>Multi\<close>, and the record expected for it.\<close>

definition Multi_unit :: TranslationUnit where
  "Multi_unit = \<lparr>Ctx = sample_ctx, decls = [VisitRecordDecl (Some Multi_decl)]\<rparr>"

definition Multi_record :: Record where
  "Multi_record =
     \<lparr>is_anonymous = False, kind = Struct, Record_name = ''Multi'', Record_size = 24,
      data_size = 20, alignment = 8,
      Record_fields =
        [\<lparr>offset = 0, data = Base True False ''B''\<rparr>,
         \<lparr>offset = 8, data = Base False False ''A''\<rparr>,
         \<lparr>offset = 12, data = MemberVariable 0 (ComplexTypeName ''int'' False False) ''int'' ''c''\<rparr>,
         \<lparr>offset = 16, data = Base False True ''V''\<rparr>],
      vtable = Some \<lparr>components = []\<rparr>\<rparr>"

text \<open>
  \<open>struct VD : virtual V { int d; };\<close> has no virtual function, so it is not
  polymorphic; its virtual base makes it a dynamic class, with the vtable
  pointer at 0, \<open>d\<close> at 8 and \<open>V\<close> at 12.
\<close>

definition VD_decl :: RecordDecl where
  "VD_decl =
     RecordDecl (sample_tag ''VD'') False TTK_Struct True True False True
       [CXXBaseSpecifier True V_decl] [CXXBaseSpecifier True V_decl] [int_field ''d'']
       (ASTRecordLayout 16 12 8 None [] [(V_decl, 12)] [64])
       \<lparr>vtable_components = [CK_VBaseOffset 12, CK_OffsetToTop 0, CK_RTTI (named ''VD'')],
        vtable_thunks = []\<rparr>"

section \<open>Verified properties\<close>

subsection \<open>Virtual tables\<close>

lemma ParseVTable_loop_length:
  "length (ParseVTable_loop policy layout idx cs) = length cs"
  by (induction cs arbitrary: idx) simp_all

lemma ParseVTable_loop_nth:
  "i < length cs \<Longrightarrow>
   ParseVTable_loop policy layout idx cs ! i = ParseVTable_component policy layout (idx + i) (cs ! i)"
proof (induction cs arbitrary: idx i)
  case Nil
  then show ?case by simp
next
  case (Cons c cs)
  then show ?case by (cases i) simp_all
qed

lemma GetThunkInfo_map_of:
  fixes xs :: "(nat \<times> 'b) list"
  shows "sorted_wrt (<) (map fst xs) \<Longrightarrow>
   (case dropWhile (\<lambda>entry. fst entry < k) xs of
      [] \<Rightarrow> None
    | it # _ \<Rightarrow> if fst it \<noteq> k then None else Some (snd it)) = map_of xs k"
proof (induction xs)
  case Nil
  then show ?case by simp
next
  case (Cons x xs)
  obtain a b where x: "x = (a, b)" by (cases x)
  show ?case
  proof (cases "a < k")
    case True
    with Cons x show ?thesis by auto
  next
    case False
    have "k \<notin> fst ` set xs" if "a \<noteq> k"
    proof
      assume "k \<in> fst ` set xs"
      with Cons.prems x have "a < k" by auto
      with False show False by simp
    qed
    then have "map_of xs k = None" if "a \<noteq> k"
      using that by (simp add: map_of_eq_None_iff)
    with False x show ?thesis by auto
  qed
qed

lemma GetThunkInfo_iff:
  assumes "sorted_wrt (<) (map fst (vtable_thunks layout))"
  shows "GetThunkInfo layout idx = Some t \<longleftrightarrow> (idx, t) \<in> set (vtable_thunks layout)"
proof -
  have d: "distinct (map fst (vtable_thunks layout))"
    using assms by (simp add: strict_sorted_iff)
  have "GetThunkInfo layout idx = map_of (vtable_thunks layout) idx"
    unfolding GetThunkInfo_def lower_bound_def by (rule GetThunkInfo_map_of [OF assms])
  with d show ?thesis by simp
qed

lemma ParseVTable_component_corresponds:
  "corresponds policy c (ParseVTable_component policy layout idx c)"
  by (cases c) (simp_all add: FunctionPointer_entry_def fill_thunk_information_def Let_def split: option.split)

lemma FunctionPointer_entry_is_thunk:
  "is_thunk (FunctionPointer_entry policy layout idx c func) =
     (case GetThunkInfo layout idx of None \<Rightarrow> False | Some t \<Rightarrow> \<not> ThunkInfo_isEmpty t)"
  by (simp add: FunctionPointer_entry_def fill_thunk_information_def Let_def split: option.split)

lemma FunctionPointer_entry_return:
  "return_adjustment (FunctionPointer_entry policy layout idx c func) =
     (case GetThunkInfo layout idx of
        None \<Rightarrow> 0
      | Some t \<Rightarrow> if \<not> ThunkInfo_isEmpty t \<and> \<not> Return_isEmpty (Return t)
                  then Return_NonVirtual (Return t) else 0)"
  "return_adjustment_vbase_offset_offset (FunctionPointer_entry policy layout idx c func) =
     (case GetThunkInfo layout idx of
        None \<Rightarrow> 0
      | Some t \<Rightarrow> if \<not> ThunkInfo_isEmpty t \<and> \<not> Return_isEmpty (Return t)
                  then VBaseOffsetOffset (Return t) else 0)"
  by (simp_all add: FunctionPointer_entry_def fill_thunk_information_def Let_def split: option.split)

lemma FunctionPointer_entry_this:
  "this_adjustment (FunctionPointer_entry policy layout idx c func) =
     (case GetThunkInfo layout idx of
        None \<Rightarrow> 0
      | Some t \<Rightarrow> if \<not> ThunkInfo_isEmpty t \<and> \<not> This_isEmpty (This t)
                  then This_NonVirtual (This t) else 0)"
  "this_adjustment_vcall_offset_offset (FunctionPointer_entry policy layout idx c func) =
     (case GetThunkInfo layout idx of
        None \<Rightarrow> 0
      | Some t \<Rightarrow> if \<not> ThunkInfo_isEmpty t \<and> \<not> This_isEmpty (This t)
                  then VCallOffsetOffset (This t) else 0)"
  by (simp_all add: FunctionPointer_entry_def fill_thunk_information_def Let_def split: option.split)

lemma ParseVTable_Some:
  assumes "isItaniumFamily ctx" and "isDynamicClass D"
  shows "ParseVTable ctx D =
    Some \<lparr>components = ParseVTable_loop (getLangOpts ctx) (getVTableLayout D) 0
                          (vtable_components (getVTableLayout D))\<rparr>"
  using assms by (simp add: ParseVTable_def Let_def)

lemma ParseVTable_SomeD:
  assumes "ParseVTable ctx D = Some vt"
  shows "components vt = ParseVTable_loop (getLangOpts ctx) (getVTableLayout D) 0
                          (vtable_components (getVTableLayout D))"
  using assms by (auto simp: ParseVTable_def Let_def split: if_splits)

text \<open>
  C5.  For a dynamic class under the Itanium ABI the vtable is built, and its
  component sequence has the length of the oracle's sequence; the component
  at every index is the translation of the oracle's component at the same
  index, of the corresponding typed form (an unused function pointer becoming
  an ordinary \<open>FunctionPointer\<close>): nothing is reordered, dropped or merged.
\<close>

theorem C5_vtable_components_follow_oracle:
  assumes "isItaniumFamily ctx" and "isDynamicClass D"
  shows "\<exists>vt. ParseVTable ctx D = Some vt
     \<and> length (components vt) = length (vtable_components (getVTableLayout D))
     \<and> (\<forall>i < length (components vt).
          components vt ! i =
            ParseVTable_component (getLangOpts ctx) (getVTableLayout D) i
              (vtable_components (getVTableLayout D) ! i))
     \<and> list_all2 (corresponds (getLangOpts ctx))
          (vtable_components (getVTableLayout D)) (components vt)"
proof -
  let ?cs = "vtable_components (getVTableLayout D)"
  let ?out = "ParseVTable_loop (getLangOpts ctx) (getVTableLayout D) 0 ?cs"
  have len: "length ?out = length ?cs"
    by (rule ParseVTable_loop_length)
  have nth: "?out ! i = ParseVTable_component (getLangOpts ctx) (getVTableLayout D) i (?cs ! i)"
    if "i < length ?cs" for i
    using ParseVTable_loop_nth [OF that, of "getLangOpts ctx" "getVTableLayout D" 0] by simp
  have rel: "list_all2 (corresponds (getLangOpts ctx)) ?cs ?out"
    unfolding list_all2_conv_all_nth
    using len nth ParseVTable_component_corresponds by simp
  show ?thesis
    using ParseVTable_Some [OF assms] len nth rel by simp
qed

text \<open>The example class has six oracle components and six output components.\<close>

theorem C5_sample_class_witness:
  "isItaniumFamily sample_ctx \<and> isDynamicClass sample_class
   \<and> (\<exists>vt. ParseVTable sample_ctx sample_class = Some vt \<and> length (components vt) = 6)"
  using C5_vtable_components_follow_oracle [of sample_ctx sample_class]
  by (auto simp: sample_ctx_def sample_class_def sample_vtable_def)

text \<open>
  C6.  Let the thunk table be sorted by strictly ascending component index,
  and let \<open>e\<close> be the function-pointer payload of output component \<open>i\<close>.  Then
  \<open>e\<close> is a thunk exactly when the table has a non-empty entry for index \<open>i\<close>;
  for such an entry, an adjustment that is empty in the source thunk leaves
  its two fields at 0 and one that is not empty is copied; and an entry that
  is no thunk has all four adjustment fields at 0.
\<close>

theorem C6_thunk_attribution:
  assumes sorted: "sorted_wrt (<) (map fst (vtable_thunks (getVTableLayout D)))"
      and vt: "ParseVTable ctx D = Some vt"
      and i: "i < length (components vt)"
      and e: "components vt ! i = FunctionPointer e \<or> components vt ! i = CompleteDtorPointer e
              \<or> components vt ! i = DeletingDtorPointer e"
  shows "(is_thunk e \<longleftrightarrow>
            (\<exists>t. (i, t) \<in> set (vtable_thunks (getVTableLayout D)) \<and> \<not> ThunkInfo_isEmpty t))
     \<and> (\<forall>t. (i, t) \<in> set (vtable_thunks (getVTableLayout D)) \<and> \<not> ThunkInfo_isEmpty t \<longrightarrow>
            (if Return_isEmpty (Return t)
             then return_adjustment e = 0 \<and> return_adjustment_vbase_offset_offset e = 0
             else return_adjustment e = Return_NonVirtual (Return t)
                  \<and> return_adjustment_vbase_offset_offset e = VBaseOffsetOffset (Return t))
          \<and> (if This_isEmpty (This t)
             then this_adjustment e = 0 \<and> this_adjustment_vcall_offset_offset e = 0
             else this_adjustment e = This_NonVirtual (This t)
                  \<and> this_adjustment_vcall_offset_offset e = VCallOffsetOffset (This t)))
     \<and> (\<not> is_thunk e \<longrightarrow>
            return_adjustment e = 0 \<and> return_adjustment_vbase_offset_offset e = 0
          \<and> this_adjustment e = 0 \<and> this_adjustment_vcall_offset_offset e = 0)"
proof -
  let ?L = "getVTableLayout D"
  let ?cs = "vtable_components ?L"
  have comps: "components vt = ParseVTable_loop (getLangOpts ctx) ?L 0 ?cs"
    by (rule ParseVTable_SomeD [OF vt])
  with i have i': "i < length ?cs"
    by (simp add: ParseVTable_loop_length)
  have nth: "components vt ! i = ParseVTable_component (getLangOpts ctx) ?L i (?cs ! i)"
    using ParseVTable_loop_nth [OF i', of "getLangOpts ctx" ?L 0] comps by simp
  from e nth obtain c func where entry: "e = FunctionPointer_entry (getLangOpts ctx) ?L i c func"
    by (cases "?cs ! i") auto
  have look: "GetThunkInfo ?L i = Some t \<longleftrightarrow> (i, t) \<in> set (vtable_thunks ?L)" for t
    by (rule GetThunkInfo_iff [OF sorted])
  show ?thesis
  proof (cases "GetThunkInfo ?L i")
    case None
    with look have "\<And>t. (i, t) \<notin> set (vtable_thunks ?L)" by simp
    with None entry show ?thesis
      by (simp add: FunctionPointer_entry_is_thunk FunctionPointer_entry_return
          FunctionPointer_entry_this)
  next
    case (Some t)
    have uniq: "t' = t" if "(i, t') \<in> set (vtable_thunks ?L)" for t'
      using that look [of t'] Some by simp
    have mem: "(i, t) \<in> set (vtable_thunks ?L)"
      using look [of t] Some by simp
    have thunk: "is_thunk e = (\<not> ThunkInfo_isEmpty t)"
      using Some entry by (simp add: FunctionPointer_entry_is_thunk)
    have iff: "is_thunk e \<longleftrightarrow>
        (\<exists>t. (i, t) \<in> set (vtable_thunks ?L) \<and> \<not> ThunkInfo_isEmpty t)"
    proof
      assume "is_thunk e"
      with thunk mem show "\<exists>t. (i, t) \<in> set (vtable_thunks ?L) \<and> \<not> ThunkInfo_isEmpty t"
        by blast
    next
      assume "\<exists>t. (i, t) \<in> set (vtable_thunks ?L) \<and> \<not> ThunkInfo_isEmpty t"
      then obtain t' where "(i, t') \<in> set (vtable_thunks ?L)" and ne: "\<not> ThunkInfo_isEmpty t'"
        by blast
      then have "t' = t" by (simp add: uniq)
      with ne thunk show "is_thunk e" by simp
    qed
    have fields: "\<not> ThunkInfo_isEmpty t' \<longrightarrow>
            (if Return_isEmpty (Return t')
             then return_adjustment e = 0 \<and> return_adjustment_vbase_offset_offset e = 0
             else return_adjustment e = Return_NonVirtual (Return t')
                  \<and> return_adjustment_vbase_offset_offset e = VBaseOffsetOffset (Return t'))
          \<and> (if This_isEmpty (This t')
             then this_adjustment e = 0 \<and> this_adjustment_vcall_offset_offset e = 0
             else this_adjustment e = This_NonVirtual (This t')
                  \<and> this_adjustment_vcall_offset_offset e = VCallOffsetOffset (This t'))"
      if "(i, t') \<in> set (vtable_thunks ?L)" for t'
      using uniq [OF that] Some entry
      by (simp add: FunctionPointer_entry_return FunctionPointer_entry_this)
    have zeros: "\<not> is_thunk e \<longrightarrow>
            return_adjustment e = 0 \<and> return_adjustment_vbase_offset_offset e = 0
          \<and> this_adjustment e = 0 \<and> this_adjustment_vcall_offset_offset e = 0"
      using thunk Some entry
      by (simp add: FunctionPointer_entry_return FunctionPointer_entry_this)
    show ?thesis
    proof (intro conjI allI)
      show "is_thunk e \<longleftrightarrow>
        (\<exists>t. (i, t) \<in> set (vtable_thunks ?L) \<and> \<not> ThunkInfo_isEmpty t)"
        by (rule iff)
    next
      fix t'
      show "(i, t') \<in> set (vtable_thunks ?L) \<and> \<not> ThunkInfo_isEmpty t' \<longrightarrow>
            (if Return_isEmpty (Return t')
             then return_adjustment e = 0 \<and> return_adjustment_vbase_offset_offset e = 0
             else return_adjustment e = Return_NonVirtual (Return t')
                  \<and> return_adjustment_vbase_offset_offset e = VBaseOffsetOffset (Return t'))
          \<and> (if This_isEmpty (This t')
             then this_adjustment e = 0 \<and> this_adjustment_vcall_offset_offset e = 0
             else this_adjustment e = This_NonVirtual (This t')
                  \<and> this_adjustment_vcall_offset_offset e = VCallOffsetOffset (This t'))"
        using fields [of t'] by blast
    next
      show "\<not> is_thunk e \<longrightarrow>
            return_adjustment e = 0 \<and> return_adjustment_vbase_offset_offset e = 0
          \<and> this_adjustment e = 0 \<and> this_adjustment_vcall_offset_offset e = 0"
        by (rule zeros)
    qed
  qed
qed


text \<open>
  In the example class, component 5 is a \<open>this\<close>-only thunk: it is marked as a
  thunk, its return adjustment stays 0 and its \<open>this\<close> adjustment is copied.
\<close>

theorem C6_sample_thunk_witness:
  "sorted_wrt (<) (map fst (vtable_thunks (getVTableLayout sample_class)))
   \<and> (\<exists>vt e. ParseVTable sample_ctx sample_class = Some vt \<and> 5 < length (components vt)
        \<and> components vt ! 5 = FunctionPointer e \<and> is_thunk e
        \<and> return_adjustment e = 0 \<and> return_adjustment_vbase_offset_offset e = 0
        \<and> this_adjustment e = - 8)"
proof -
  let ?e = "FunctionPointer_entry sample_policy sample_vtable 5
              (CK_FunctionPointer sample_method) sample_method"
  let ?vt = "\<lparr>components = ParseVTable_loop sample_policy sample_vtable 0
                (vtable_components sample_vtable)\<rparr>"
  have sorted: "sorted_wrt (<) (map fst (vtable_thunks (getVTableLayout sample_class)))"
    by (simp add: sample_class_def sample_vtable_def)
  have vt: "ParseVTable sample_ctx sample_class = Some ?vt"
    by (simp add: ParseVTable_def sample_class_def sample_ctx_def)
  have len: "5 < length (components ?vt)"
    by (simp add: ParseVTable_loop_length sample_vtable_def)
  have comp: "components ?vt ! 5 = FunctionPointer ?e"
    using ParseVTable_loop_nth [of 5 "vtable_components sample_vtable" sample_policy sample_vtable 0]
    by (simp add: sample_vtable_def)
  have mem: "(5, sample_thunk) \<in> set (vtable_thunks (getVTableLayout sample_class))"
    by (simp add: sample_class_def sample_vtable_def)
  have ne: "\<not> ThunkInfo_isEmpty sample_thunk" "Return_isEmpty (Return sample_thunk)"
    "\<not> This_isEmpty (This sample_thunk)" "This_NonVirtual (This sample_thunk) = - 8"
    by (simp_all add: ThunkInfo_isEmpty_def This_isEmpty_def Return_isEmpty_def sample_thunk_def)
  note inst = C6_thunk_attribution [OF sorted vt len, of ?e, OF disjI1, OF comp]
  from inst mem ne(1) have "is_thunk ?e" by blast
  moreover from inst mem ne have "return_adjustment ?e = 0 \<and> return_adjustment_vbase_offset_offset ?e = 0
    \<and> this_adjustment ?e = - 8"
    by (metis (no_types, lifting))
  ultimately show ?thesis
    using sorted vt len comp by blast
qed

subsection \<open>Type flattening\<close>

text \<open>
  C8.  For every type \<open>T\<close>, whatever the qualifiers on the pointer or on the
  reference itself: flattening the pointer type \<open>T*\<close> gives \<open>Pointer\<close> of the
  flattened \<open>T\<close>, and flattening the reference type \<open>T&\<close> gives the same value as
  flattening \<open>T*\<close>.
\<close>

theorem C8_pointer_and_reference_fold:
  "TranslateToComplexType policy (QualType c v (PointerType T)) =
     ComplexTypePointer (TranslateToComplexType policy T)
   \<and> TranslateToComplexType policy (QualType c' v' (ReferenceType T)) =
     TranslateToComplexType policy (QualType c v (PointerType T))"
  by simp

text \<open>A pointer or a reference to \<open>const int\<close> flattens to \<open>Pointer\<close> of the \<open>const\<close> leaf.\<close>

theorem C8_const_int_witness:
  "TranslateToComplexType sample_policy (QualType False False (ReferenceType (QualType True False (OtherType ''int''))))
     = ComplexTypePointer (ComplexTypeName ''int'' True False)"
  using C8_pointer_and_reference_fold [of sample_policy False False "QualType True False (OtherType ''int'')" False False]
  by (simp add: sample_policy_def)

subsection \<open>The registry\<close>

lemma CanProcess_False_state:
  "CanProcess ctx D st = (False, st') \<Longrightarrow> st' = st"
  by (auto simp: CanProcess_def Let_def split: option.splits if_splits)

lemma CanProcess_True_iff:
  "CanProcess ctx D st = (True, st') \<longleftrightarrow>
     (\<exists>d. D = Some d \<and> passes_rejects d \<and> qualified_name ctx d \<notin> m_processed st
          \<and> st' = st\<lparr>m_processed := insert (qualified_name ctx d) (m_processed st)\<rparr>)"
  by (auto simp: CanProcess_def Let_def passes_rejects_def qualified_name_def
      split: option.splits if_splits)

lemma CanProcess_processed:
  "qualified_name ctx d \<in> m_processed st \<Longrightarrow> CanProcess ctx (Some d) st = (False, st)"
  by (simp add: CanProcess_def Let_def qualified_name_def)

lemma CanProcess_rejected:
  "\<not> passes_rejects d \<Longrightarrow> CanProcess ctx (Some d) st = (False, st)"
  by (auto simp: CanProcess_def Let_def passes_rejects_def)

lemma CanProcess_None: "CanProcess ctx None st = (False, st)"
  by (simp add: CanProcess_def)

lemma CanProcess_cases:
  obtains (rejected) "CanProcess ctx D st = (False, st)"
  | (admitted) d where "D = Some d" "passes_rejects d" "qualified_name ctx d \<notin> m_processed st"
      "CanProcess ctx D st = (True, st\<lparr>m_processed := insert (qualified_name ctx d) (m_processed st)\<rparr>)"
proof (cases "CanProcess ctx D st")
  case (Pair b st')
  show ?thesis
  proof (cases b)
    case True
    with Pair CanProcess_True_iff [of ctx D st st'] admitted show ?thesis by auto
  next
    case False
    with Pair CanProcess_False_state [of ctx D st st'] rejected show ?thesis by simp
  qed
qed

text \<open>What a visit does to the state, by the verdict of the gate.\<close>

lemma HandleEnumDecl_rejected:
  "CanProcess ctx (map_option Enum_TagDecl D) st = (False, st) \<Longrightarrow> HandleEnumDecl ctx D st = st"
  by (simp add: HandleEnumDecl_def)

lemma HandleRecordDecl_rejected:
  "CanProcess ctx (map_option Record_TagDecl D) st = (False, st) \<Longrightarrow>
   HandleRecordDecl m_config ctx D st = st"
  by (simp add: HandleRecordDecl_def)

lemma HandleEnumDecl_processed:
  "m_processed (HandleEnumDecl ctx D st) =
     (case CanProcess ctx (map_option Enum_TagDecl D) st of (b, st') \<Rightarrow> m_processed st')"
  by (cases D) (auto simp: HandleEnumDecl_def Let_def CanProcess_None split: prod.splits bool.splits)

lemma HandleEnumDecl_records:
  "records (m_result (HandleEnumDecl ctx D st)) = records (m_result st)"
  by (cases D) (auto simp: HandleEnumDecl_def Let_def CanProcess_def split: prod.splits bool.splits if_splits)

lemma HandleRecordDecl_processed:
  "m_processed (HandleRecordDecl m_config ctx D st) =
     (case CanProcess ctx (map_option Record_TagDecl D) st of (b, st') \<Rightarrow> m_processed st')"
  by (cases D) (auto simp: HandleRecordDecl_def Let_def CanProcess_None split: prod.splits bool.splits option.splits)

lemma Visit_rejected:
  "CanProcess ctx (Decl_definition x) st = (False, st) \<Longrightarrow> Visit m_config ctx x st = st"
  by (cases x) (simp_all add: HandleEnumDecl_rejected HandleRecordDecl_rejected)

lemma Visit_processed:
  "m_processed (Visit m_config ctx x st) = m_processed (snd (CanProcess ctx (Decl_definition x) st))"
  by (cases x) (simp_all add: HandleEnumDecl_processed HandleRecordDecl_processed split: prod.splits)

lemma Visit_mono: "m_processed st \<subseteq> m_processed (Visit m_config ctx x st)"
  unfolding Visit_processed
  by (rule CanProcess_cases [of ctx "Decl_definition x" st]) auto

lemma Visit_noop:
  assumes "Decl_definition x = Some t" and "qualified_name ctx t \<in> m_processed st"
  shows "Visit m_config ctx x st = st"
  using assms by (simp add: Visit_rejected CanProcess_processed)

lemma Visit_skipped:
  assumes "Decl_definition x = None \<or> (\<exists>t. Decl_definition x = Some t \<and> \<not> passes_rejects t)"
  shows "Visit m_config ctx x st = st"
  using assms by (auto simp: Visit_rejected CanProcess_None CanProcess_rejected)

lemma Visit_registers:
  assumes "Decl_definition x = Some t" and "passes_rejects t"
  shows "qualified_name ctx t \<in> m_processed (Visit m_config ctx x st)"
proof (cases "qualified_name ctx t \<in> m_processed st")
  case True
  then show ?thesis using Visit_mono [of st m_config ctx x] by auto
next
  case False
  with assms show ?thesis
    unfolding Visit_processed
    by (simp add: CanProcess_def Let_def passes_rejects_def qualified_name_def)
qed

lemma TraverseAST_append:
  "TraverseAST m_config ctx (xs @ ys) st = TraverseAST m_config ctx ys (TraverseAST m_config ctx xs st)"
  by (induction xs arbitrary: st) simp_all

lemma TraverseAST_mono: "m_processed st \<subseteq> m_processed (TraverseAST m_config ctx ds st)"
proof (induction ds arbitrary: st)
  case Nil
  show ?case by simp
next
  case (Cons x ds)
  have "m_processed st \<subseteq> m_processed (Visit m_config ctx x st)"
    by (rule Visit_mono)
  also have "\<dots> \<subseteq> m_processed (TraverseAST m_config ctx ds (Visit m_config ctx x st))"
    by (rule Cons.IH)
  finally show ?case by simp
qed

lemma TraverseAST_settled_noop:
  assumes "\<forall>x\<in>set ds. \<forall>t. Decl_definition x = Some t \<longrightarrow> passes_rejects t \<longrightarrow>
             qualified_name ctx t \<in> m_processed st"
  shows "TraverseAST m_config ctx ds st = st"
  using assms
proof (induction ds)
  case Nil
  show ?case by simp
next
  case (Cons x ds)
  have "Visit m_config ctx x st = st"
  proof (cases "Decl_definition x")
    case None
    then show ?thesis by (simp add: Visit_skipped)
  next
    case (Some t)
    show ?thesis
    proof (cases "passes_rejects t")
      case True
      with Some Cons.prems have "qualified_name ctx t \<in> m_processed st" by simp
      with Some show ?thesis by (rule Visit_noop)
    next
      case False
      with Some show ?thesis by (simp add: Visit_skipped)
    qed
  qed
  with Cons show ?case by simp
qed

lemma TraverseAST_settles:
  assumes "x \<in> set ds" and "Decl_definition x = Some t" and "passes_rejects t"
  shows "qualified_name ctx t \<in> m_processed (TraverseAST m_config ctx ds st)"
  using assms(1)
proof (induction ds arbitrary: st)
  case Nil
  then show ?case by simp
next
  case (Cons y ds)
  show ?case
  proof (cases "x = y")
    case True
    have "qualified_name ctx t \<in> m_processed (Visit m_config ctx y st)"
      using assms(2,3) True by (simp add: Visit_registers)
    then show ?thesis
      using TraverseAST_mono [of "Visit m_config ctx y st" m_config ctx ds] by auto
  next
    case False
    with Cons.prems have "x \<in> set ds" by simp
    then show ?thesis by (simp add: Cons.IH)
  qed
qed

text \<open>
  C7.  Once a declaration that passes the registry's rejects has been visited,
  a later visit of any declaration with the same qualified name changes
  nothing: neither the enums, nor the records, nor the error, nor the
  processed set.  This holds for a visit in any state that has the name, and
  in particular at any later point of a stream.  Consequently traversing a
  stream a second time leaves the state of the first traversal unchanged.
\<close>

theorem C7_first_visit_wins:
  assumes first: "Decl_definition x = Some t" "passes_rejects t"
      and later: "Decl_definition y = Some t'" "qualified_name ctx t' = qualified_name ctx t"
  shows "TraverseAST m_config ctx (pre @ x # mid @ [y]) st = TraverseAST m_config ctx (pre @ x # mid) st
     \<and> (\<forall>st0. qualified_name ctx t \<in> m_processed st0 \<longrightarrow> Visit m_config ctx y st0 = st0)
     \<and> TraverseAST m_config ctx ds (TraverseAST m_config ctx ds st) = TraverseAST m_config ctx ds st"
proof (intro conjI allI impI)
  let ?s = "TraverseAST m_config ctx (pre @ x # mid) st"
  have "x \<in> set (pre @ x # mid)" by simp
  then have "qualified_name ctx t \<in> m_processed ?s"
    using first by (rule TraverseAST_settles)
  with later have "Visit m_config ctx y ?s = ?s"
    by (simp add: Visit_noop)
  moreover have "TraverseAST m_config ctx (pre @ x # mid @ [y]) st = Visit m_config ctx y ?s"
    using TraverseAST_append [of m_config ctx "pre @ x # mid" "[y]" st] by simp
  ultimately show "TraverseAST m_config ctx (pre @ x # mid @ [y]) st = ?s" by simp
next
  fix st0 :: ParseContextImpl
  assume "qualified_name ctx t \<in> m_processed st0"
  with later show "Visit m_config ctx y st0 = st0"
    by (simp add: Visit_noop)
next
  have "\<forall>x\<in>set ds. \<forall>t. Decl_definition x = Some t \<longrightarrow> passes_rejects t \<longrightarrow>
          qualified_name ctx t \<in> m_processed (TraverseAST m_config ctx ds st)"
    by (simp add: TraverseAST_settles)
  then show "TraverseAST m_config ctx ds (TraverseAST m_config ctx ds st) = TraverseAST m_config ctx ds st"
    by (rule TraverseAST_settled_noop)
qed

text \<open>Re-visiting \<open>Derived\<close> right after its first visit changes nothing.\<close>

theorem C7_revisit_witness:
  "Decl_definition (VisitRecordDecl (Some Derived_decl)) = Some (sample_tag ''Derived'')
   \<and> passes_rejects (sample_tag ''Derived'')
   \<and> TraverseAST inlining_on sample_ctx
        [VisitRecordDecl (Some Derived_decl), VisitRecordDecl (Some Derived_decl)] Make
      = TraverseAST inlining_on sample_ctx [VisitRecordDecl (Some Derived_decl)] Make"
  using C7_first_visit_wins [of "VisitRecordDecl (Some Derived_decl)" "sample_tag ''Derived''"
      "VisitRecordDecl (Some Derived_decl)" "sample_tag ''Derived''" sample_ctx
      inlining_on "[]" "[]" Make "[]"]
  by (simp add: Derived_decl_def passes_rejects_def sample_tag_def)

subsection \<open>The layout walker's loops in closed form\<close>

lemma AddBases_loop_eq:
  "AddBases_loop m_config policy base_offset layout primary_base bs rec =
     rec\<lparr>Record_fields := Record_fields rec @
       map (\<lambda>b. \<lparr>offset = base_offset + getBaseClassOffset layout b,
                  data = Base (Some b = primary_base) False
                           (policy (getTypeDeclType (Record_TagDecl b)))\<rparr>)
         (filter (\<lambda>b. \<not> ShouldInlineEmptyRecord m_config b) bs)\<rparr>"
  by (induction bs arbitrary: rec) (simp_all add: emplace_back_def Let_def)

lemma AddVirtualBases_loop_eq:
  "AddVirtualBases_loop m_config policy base_offset layout primary_base bs rec =
     rec\<lparr>Record_fields := Record_fields rec @
       map (\<lambda>b. \<lparr>offset = base_offset + getVBaseClassOffset layout b,
                  data = Base (Some b = primary_base) True
                           (policy (getTypeDeclType (Record_TagDecl b)))\<rparr>)
         (filter (\<lambda>b. \<not> ShouldInlineEmptyRecord m_config b) bs)\<rparr>"
  by (induction bs arbitrary: rec) (simp_all add: emplace_back_def Let_def)

lemma AddDataMembers_loop_eq:
  "\<exists>mem. AddDataMembers_loop m_config ctx policy base_offset D layout field_idx fds rec =
            rec\<lparr>Record_fields := Record_fields rec @ mem\<rparr>
     \<and> list_all is_MemberVariable mem
     \<and> map MemberVariable_name mem =
         map getNameAsString
           (filter (\<lambda>fd. \<not> isUnnamedBitfield fd \<and> member_kept m_config D fd) fds)
     \<and> map offset mem =
         map (\<lambda>p. base_offset + toCharUnitsFromBits ctx (getFieldOffset layout (snd p)))
           (filter (\<lambda>p. member_kept m_config D (fst p))
              (zip (filter (\<lambda>fd. \<not> isUnnamedBitfield fd) fds)
                 [field_idx ..< field_idx + length (filter (\<lambda>fd. \<not> isUnnamedBitfield fd) fds)]))"
proof (induction fds arbitrary: field_idx rec)
  case Nil
  show ?case by (rule exI [of _ "[]"]) simp
next
  case (Cons fd fds)
  let ?named = "filter (\<lambda>fd. \<not> isUnnamedBitfield fd) fds"
  show ?case
  proof (cases "isUnnamedBitfield fd")
    case True
    with Cons.IH [of field_idx rec] show ?thesis by simp
  next
    case False
    have upt: "[field_idx ..< field_idx + length (filter (\<lambda>fd. \<not> isUnnamedBitfield fd) (fd # fds))]
                 = field_idx # [Suc field_idx ..< Suc field_idx + length ?named]"
      using False by (simp del: upt_Suc add: upt_conv_Cons)
    show ?thesis
    proof (cases "member_kept m_config D fd")
      case kept: True
      define f where "f = \<lparr>offset = base_offset + toCharUnitsFromBits ctx (getFieldOffset layout field_idx),
         data = (case getAsRecordDecl fd of
                   Some field_record \<Rightarrow>
                     MemberVariable 0
                       (TranslateToComplexType policy (getTypeDeclType (Record_TagDecl field_record)))
                       (policy (getTypeDeclType (Record_TagDecl field_record)))
                       (getNameAsString fd)
                 | None \<Rightarrow>
                     MemberVariable (if isBitField fd then getBitWidthValue fd else 0)
                       (TranslateToComplexType policy (Field_getType fd))
                       (policy (Field_getType fd))
                       (getNameAsString fd))\<rparr>"
      have step: "AddDataMembers_loop m_config ctx policy base_offset D layout field_idx (fd # fds) rec
          = AddDataMembers_loop m_config ctx policy base_offset D layout (Suc field_idx) fds
              (emplace_back f rec)"
        using False kept by (auto simp: f_def member_kept_def Let_def split: option.splits)
      from Cons.IH [of "Suc field_idx" "emplace_back f rec"] obtain mem where
        mem: "AddDataMembers_loop m_config ctx policy base_offset D layout (Suc field_idx) fds
                (emplace_back f rec)
              = (emplace_back f rec)\<lparr>Record_fields := Record_fields (emplace_back f rec) @ mem\<rparr>"
          "list_all is_MemberVariable mem"
          "map MemberVariable_name mem =
             map getNameAsString
               (filter (\<lambda>fd. \<not> isUnnamedBitfield fd \<and> member_kept m_config D fd) fds)"
          "map offset mem =
             map (\<lambda>p. base_offset + toCharUnitsFromBits ctx (getFieldOffset layout (snd p)))
               (filter (\<lambda>p. member_kept m_config D (fst p))
                  (zip ?named [Suc field_idx ..< Suc field_idx + length ?named]))"
        by blast
      have f: "is_MemberVariable f" "MemberVariable_name f = getNameAsString fd"
        "offset f = base_offset + toCharUnitsFromBits ctx (getFieldOffset layout field_idx)"
        by (simp_all add: f_def split: option.splits)
      show ?thesis
      proof (intro exI [of _ "f # mem"] conjI)
        show "AddDataMembers_loop m_config ctx policy base_offset D layout field_idx (fd # fds) rec
            = rec\<lparr>Record_fields := Record_fields rec @ f # mem\<rparr>"
          unfolding step mem(1) by (simp add: emplace_back_def)
        show "list_all is_MemberVariable (f # mem)"
          using f(1) mem(2) by simp
        show "map MemberVariable_name (f # mem) =
            map getNameAsString
              (filter (\<lambda>fd. \<not> isUnnamedBitfield fd \<and> member_kept m_config D fd) (fd # fds))"
          using f(2) mem(3) False kept by simp
        show "map offset (f # mem) =
            map (\<lambda>p. base_offset + toCharUnitsFromBits ctx (getFieldOffset layout (snd p)))
              (filter (\<lambda>p. member_kept m_config D (fst p))
                 (zip (filter (\<lambda>fd. \<not> isUnnamedBitfield fd) (fd # fds))
                    [field_idx ..< field_idx + length (filter (\<lambda>fd. \<not> isUnnamedBitfield fd) (fd # fds))]))"
          unfolding upt using f(3) mem(4) False kept by simp
      qed
    next
      case dropped: False
      have step: "AddDataMembers_loop m_config ctx policy base_offset D layout field_idx (fd # fds) rec
          = AddDataMembers_loop m_config ctx policy base_offset D layout (Suc field_idx) fds rec"
        using False dropped by (auto simp: member_kept_def Let_def split: option.splits)
      from Cons.IH [of "Suc field_idx" rec] obtain mem where
        mem: "AddDataMembers_loop m_config ctx policy base_offset D layout (Suc field_idx) fds rec
              = rec\<lparr>Record_fields := Record_fields rec @ mem\<rparr>"
          "list_all is_MemberVariable mem"
          "map MemberVariable_name mem =
             map getNameAsString
               (filter (\<lambda>fd. \<not> isUnnamedBitfield fd \<and> member_kept m_config D fd) fds)"
          "map offset mem =
             map (\<lambda>p. base_offset + toCharUnitsFromBits ctx (getFieldOffset layout (snd p)))
               (filter (\<lambda>p. member_kept m_config D (fst p))
                  (zip ?named [Suc field_idx ..< Suc field_idx + length ?named]))"
        by blast
      show ?thesis
      proof (intro exI [of _ mem] conjI)
        show "AddDataMembers_loop m_config ctx policy base_offset D layout field_idx (fd # fds) rec
            = rec\<lparr>Record_fields := Record_fields rec @ mem\<rparr>"
          unfolding step by (rule mem(1))
        show "list_all is_MemberVariable mem" by (rule mem(2))
        show "map MemberVariable_name mem =
            map getNameAsString
              (filter (\<lambda>fd. \<not> isUnnamedBitfield fd \<and> member_kept m_config D fd) (fd # fds))"
          using mem(3) dropped by simp
        show "map offset mem =
            map (\<lambda>p. base_offset + toCharUnitsFromBits ctx (getFieldOffset layout (snd p)))
              (filter (\<lambda>p. member_kept m_config D (fst p))
                 (zip (filter (\<lambda>fd. \<not> isUnnamedBitfield fd) (fd # fds))
                    [field_idx ..< field_idx + length (filter (\<lambda>fd. \<not> isUnnamedBitfield fd) (fd # fds))]))"
          unfolding upt using mem(4) False dropped by simp
      qed
    qed
  qed
qed

lemma AddFields_eq:
  "\<exists>mem. AddFields m_config ctx policy base_offset D layout rec =
       rec\<lparr>Record_fields := Record_fields rec
         @ (if isCXXRecordDecl D \<and> isDynamicClass D \<and> getPrimaryBase layout = None
            then [\<lparr>offset = base_offset, data = VTablePointer\<rparr>] else [])
         @ map (Base_field policy base_offset (getBaseClassOffset layout) (getPrimaryBase layout) False)
             (filter (\<lambda>b. \<not> ShouldInlineEmptyRecord m_config b)
                (sort_key (getBaseClassOffset layout) (non_virtual_bases D)))
         @ mem
         @ map (Base_field policy base_offset (getVBaseClassOffset layout) (getPrimaryBase layout) True)
             (filter (\<lambda>b. \<not> ShouldInlineEmptyRecord m_config b)
                (sort_key (getVBaseClassOffset layout) (virtual_bases D)))\<rparr>
     \<and> list_all is_MemberVariable mem
     \<and> map MemberVariable_name mem =
         map getNameAsString
           (filter (\<lambda>fd. \<not> isUnnamedBitfield fd \<and> member_kept m_config D fd) (RecordDecl_fields D))
     \<and> map offset mem =
         map (\<lambda>p. base_offset + toCharUnitsFromBits ctx (getFieldOffset layout (snd p)))
           (filter (\<lambda>p. member_kept m_config D (fst p))
              (zip (filter (\<lambda>fd. \<not> isUnnamedBitfield fd) (RecordDecl_fields D))
                 [0 ..< length (filter (\<lambda>fd. \<not> isUnnamedBitfield fd) (RecordDecl_fields D))]))"
proof -
  define r1 where "r1 = AddBases m_config policy base_offset (dyn_cast_CXXRecordDecl D) layout rec"
  have r1: "r1 = rec\<lparr>Record_fields := Record_fields rec
         @ (if isCXXRecordDecl D \<and> isDynamicClass D \<and> getPrimaryBase layout = None
            then [\<lparr>offset = base_offset, data = VTablePointer\<rparr>] else [])
         @ map (Base_field policy base_offset (getBaseClassOffset layout) (getPrimaryBase layout) False)
             (filter (\<lambda>b. \<not> ShouldInlineEmptyRecord m_config b)
                (sort_key (getBaseClassOffset layout) (non_virtual_bases D)))\<rparr>"
    unfolding r1_def
    by (simp add: AddBases_def dyn_cast_CXXRecordDecl_def AddBases_loop_eq Let_def
        emplace_back_def non_virtual_bases_def Base_field_def)
  from AddDataMembers_loop_eq [of m_config ctx policy base_offset D layout 0 "RecordDecl_fields D" r1]
  obtain mem where
    mem: "AddDataMembers m_config ctx policy base_offset D layout r1
            = r1\<lparr>Record_fields := Record_fields r1 @ mem\<rparr>"
      "list_all is_MemberVariable mem"
      "map MemberVariable_name mem =
         map getNameAsString
           (filter (\<lambda>fd. \<not> isUnnamedBitfield fd \<and> member_kept m_config D fd) (RecordDecl_fields D))"
      "map offset mem =
         map (\<lambda>p. base_offset + toCharUnitsFromBits ctx (getFieldOffset layout (snd p)))
           (filter (\<lambda>p. member_kept m_config D (fst p))
              (zip (filter (\<lambda>fd. \<not> isUnnamedBitfield fd) (RecordDecl_fields D))
                 [0 ..< length (filter (\<lambda>fd. \<not> isUnnamedBitfield fd) (RecordDecl_fields D))]))"
    unfolding AddDataMembers_def by auto
  have r3: "AddVirtualBases m_config policy base_offset (dyn_cast_CXXRecordDecl D) layout r2 =
      r2\<lparr>Record_fields := Record_fields r2
         @ map (Base_field policy base_offset (getVBaseClassOffset layout) (getPrimaryBase layout) True)
             (filter (\<lambda>b. \<not> ShouldInlineEmptyRecord m_config b)
                (sort_key (getVBaseClassOffset layout) (virtual_bases D)))\<rparr>" for r2
    by (simp add: AddVirtualBases_def dyn_cast_CXXRecordDecl_def AddVirtualBases_loop_eq Let_def
        virtual_bases_def Base_field_def)
  have "AddFields m_config ctx policy base_offset D layout rec =
      AddVirtualBases m_config policy base_offset (dyn_cast_CXXRecordDecl D) layout
        (AddDataMembers m_config ctx policy base_offset D layout r1)"
    by (simp add: AddFields_def Let_def r1_def)
  also have "\<dots> = rec\<lparr>Record_fields := Record_fields rec
         @ (if isCXXRecordDecl D \<and> isDynamicClass D \<and> getPrimaryBase layout = None
            then [\<lparr>offset = base_offset, data = VTablePointer\<rparr>] else [])
         @ map (Base_field policy base_offset (getBaseClassOffset layout) (getPrimaryBase layout) False)
             (filter (\<lambda>b. \<not> ShouldInlineEmptyRecord m_config b)
                (sort_key (getBaseClassOffset layout) (non_virtual_bases D)))
         @ mem
         @ map (Base_field policy base_offset (getVBaseClassOffset layout) (getPrimaryBase layout) True)
             (filter (\<lambda>b. \<not> ShouldInlineEmptyRecord m_config b)
                (sort_key (getVBaseClassOffset layout) (virtual_bases D)))\<rparr>"
    unfolding r3 mem(1) unfolding r1 by simp
  finally show ?thesis
    using mem(2,3,4) by blast
qed

lemma AddFields_Record_name:
  "Record_name (AddFields m_config ctx policy base_offset D layout rec) = Record_name rec"
  using AddFields_eq [of m_config ctx policy base_offset D layout rec] by auto

subsection \<open>Records skipped by the inlining policy\<close>

lemma empty_record_policy_inlined:
  "inline_empty_structs m_config \<Longrightarrow> empty_record_policy D \<Longrightarrow> ShouldInlineEmptyRecord m_config D"
  by (auto simp: ShouldInlineEmptyRecord_def empty_record_policy_def)

lemma HandleRecordDecl_inlined:
  assumes "ShouldInlineEmptyRecord m_config d"
  shows "m_result (HandleRecordDecl m_config ctx (Some d) st) = m_result st"
  by (rule CanProcess_cases [of ctx "Some (Record_TagDecl d)" st])
     (use assms in \<open>simp_all add: HandleRecordDecl_def Let_def\<close>)

lemma HandleRecordDecl_admitted:
  assumes "passes_rejects (Record_TagDecl d)"
      and "qualified_name ctx (Record_TagDecl d) \<notin> m_processed st"
  shows "if ShouldInlineEmptyRecord m_config d
         then HandleRecordDecl m_config ctx (Some d) st =
                st\<lparr>m_processed := insert (qualified_name ctx (Record_TagDecl d)) (m_processed st)\<rparr>
         else \<exists>r. Record_name r = qualified_name ctx (Record_TagDecl d)
                \<and> HandleRecordDecl m_config ctx (Some d) st =
                    st\<lparr>m_processed := insert (qualified_name ctx (Record_TagDecl d)) (m_processed st),
                       m_result := (m_result st)\<lparr>records := records (m_result st) @ [r]\<rparr>\<rparr>"
proof -
  have gate: "CanProcess ctx (Some (Record_TagDecl d)) st =
      (True, st\<lparr>m_processed := insert (qualified_name ctx (Record_TagDecl d)) (m_processed st)\<rparr>)"
    using assms by (simp add: CanProcess_True_iff)
  define r0 where "r0 =
     \<lparr>is_anonymous = isAnonymousStructOrUnion d,
      kind = Record_kind_of (getTagKind d),
      Record_name = getLangOpts ctx (getTypeDeclType (Record_TagDecl d)),
      Record_size = getSize (getASTRecordLayout d),
      data_size = getDataSize (getASTRecordLayout d),
      alignment = getAlignment (getASTRecordLayout d),
      Record_fields = [], vtable = None\<rparr>"
  define r1 where "r1 = AddFields m_config ctx (getLangOpts ctx) 0 d (getASTRecordLayout d) r0"
  define r where "r =
     (case dyn_cast_CXXRecordDecl d of Some C \<Rightarrow> r1\<lparr>vtable := ParseVTable ctx C\<rparr> | None \<Rightarrow> r1)"
  have name: "Record_name r = qualified_name ctx (Record_TagDecl d)"
    by (simp add: r_def r1_def r0_def AddFields_Record_name qualified_name_def split: option.splits)
  have inl: "HandleRecordDecl m_config ctx (Some d) st =
      st\<lparr>m_processed := insert (qualified_name ctx (Record_TagDecl d)) (m_processed st)\<rparr>"
    if "ShouldInlineEmptyRecord m_config d"
    using gate that by (simp add: HandleRecordDecl_def Let_def)
  have emit: "HandleRecordDecl m_config ctx (Some d) st =
      st\<lparr>m_processed := insert (qualified_name ctx (Record_TagDecl d)) (m_processed st),
         m_result := (m_result st)\<lparr>records := records (m_result st) @ [r]\<rparr>\<rparr>"
    if "\<not> ShouldInlineEmptyRecord m_config d"
    using gate that by (simp add: HandleRecordDecl_def Let_def r_def r1_def r0_def split: option.splits)
  show ?thesis
  proof (cases "ShouldInlineEmptyRecord m_config d")
    case True
    with inl show ?thesis by simp
  next
    case False
    with emit name show ?thesis by auto
  qed
qed

lemma Visit_new_record_names:
  "Record_name ` set (records (m_result (Visit m_config ctx x st)))
     \<subseteq> Record_name ` set (records (m_result st))
       \<union> (m_processed (Visit m_config ctx x st) - m_processed st)"
proof (cases x)
  case (VisitEnumDecl D)
  then show ?thesis by (simp add: HandleEnumDecl_records)
next
  case (VisitRecordDecl D)
  show ?thesis
  proof (cases D)
    case None
    with VisitRecordDecl show ?thesis
      by (simp add: HandleRecordDecl_rejected CanProcess_None)
  next
    case (Some d)
    show ?thesis
    proof (cases "passes_rejects (Record_TagDecl d)
        \<and> qualified_name ctx (Record_TagDecl d) \<notin> m_processed st")
      case True
      with HandleRecordDecl_admitted [of d ctx st m_config] VisitRecordDecl Some
      show ?thesis by (cases "ShouldInlineEmptyRecord m_config d") auto
    next
      case False
      then have "CanProcess ctx (Some (Record_TagDecl d)) st = (False, st)"
        by (auto simp: CanProcess_rejected CanProcess_processed)
      with VisitRecordDecl Some show ?thesis
        by (simp add: HandleRecordDecl_rejected)
    qed
  qed
qed

text \<open>A name that is processed and names no record stays so.\<close>

lemma Visit_consumed:
  assumes "n \<in> m_processed st" and "n \<notin> Record_name ` set (records (m_result st))"
  shows "n \<in> m_processed (Visit m_config ctx x st)
     \<and> n \<notin> Record_name ` set (records (m_result (Visit m_config ctx x st)))"
  using assms Visit_mono [of st m_config ctx x] Visit_new_record_names [of m_config ctx x st]
  by auto

lemma TraverseAST_consumed:
  assumes "n \<in> m_processed st" and "n \<notin> Record_name ` set (records (m_result st))"
  shows "n \<in> m_processed (TraverseAST m_config ctx ds st)
     \<and> n \<notin> Record_name ` set (records (m_result (TraverseAST m_config ctx ds st)))"
  using assms
proof (induction ds arbitrary: st)
  case Nil
  then show ?case by simp
next
  case (Cons x ds)
  from Visit_consumed [OF Cons.prems, of m_config ctx x] Cons.IH [of "Visit m_config ctx x st"]
  show ?case by simp
qed

lemma HandleTranslationUnit_consumed:
  assumes "n \<in> m_processed st" and "n \<notin> Record_name ` set (records (m_result st))"
  shows "n \<in> m_processed (HandleTranslationUnit m_config tu st)
     \<and> n \<notin> Record_name ` set (records (m_result (HandleTranslationUnit m_config tu st)))"
  using assms TraverseAST_consumed [OF assms, of m_config "Ctx tu" "decls tu"]
  by (simp add: HandleTranslationUnit_def)

lemma run_consumed:
  assumes "n \<in> m_processed st" and "n \<notin> Record_name ` set (records (m_result st))"
  shows "n \<in> m_processed (run m_config tus st)
     \<and> n \<notin> Record_name ` set (records (m_result (run m_config tus st)))"
  using assms
proof (induction tus arbitrary: st)
  case Nil
  then show ?case by simp
next
  case (Cons tu tus)
  from HandleTranslationUnit_consumed [OF Cons.prems, of m_config tu]
    Cons.IH [of "HandleTranslationUnit m_config tu st"]
  show ?case by simp
qed

text \<open>
  Every state of a run has the property that C10 assumes: it holds at the
  start and every visit keeps it.
\<close>

lemma names_registered_Make: "names_registered Make"
  by (simp add: names_registered_def Make_def ParseResult_init_def)

lemma Visit_names_registered:
  assumes "names_registered st"
  shows "names_registered (Visit m_config ctx x st)"
  using assms Visit_mono [of st m_config ctx x] Visit_new_record_names [of m_config ctx x st]
  unfolding names_registered_def by blast

lemma TraverseAST_names_registered:
  "names_registered st \<Longrightarrow> names_registered (TraverseAST m_config ctx ds st)"
  by (induction ds arbitrary: st) (simp_all add: Visit_names_registered)

lemma HandleTranslationUnit_names_registered:
  "names_registered st \<Longrightarrow> names_registered (HandleTranslationUnit m_config tu st)"
  by (simp add: HandleTranslationUnit_def TraverseAST_names_registered)
     (simp add: names_registered_def)

lemma run_names_registered:
  "names_registered st \<Longrightarrow> names_registered (run m_config tus st)"
  by (induction tus arbitrary: st) (simp_all add: HandleTranslationUnit_names_registered)

text \<open>
  C10.  Let inlining be enabled, and let a record that satisfies the
  empty-record policy be visited in a state in which every record of the
  result has its name in the processed set (as in every state of a run), the
  visit being the first one that the gate admits for its name.  Then the visit puts the name into the
  processed set and leaves the result unchanged; and for the rest of the run,
  over any further translation units, the gate rejects every declaration that
  prints this name and no record of the result has this name.
\<close>

theorem C10_inlined_empty_record_consumes_its_name:
  assumes inv: "names_registered st"
      and on: "inline_empty_structs m_config"
      and empty: "empty_record_policy d"
      and first: "passes_rejects (Record_TagDecl d)"
                 "qualified_name ctx (Record_TagDecl d) \<notin> m_processed st"
  shows "qualified_name ctx (Record_TagDecl d)
           \<in> m_processed (HandleRecordDecl m_config ctx (Some d) st)
     \<and> m_result (HandleRecordDecl m_config ctx (Some d) st) = m_result st
     \<and> (\<forall>tus ctx' t. qualified_name ctx' t = qualified_name ctx (Record_TagDecl d) \<longrightarrow>
           \<not> fst (CanProcess ctx' (Some t)
                    (run m_config tus (HandleRecordDecl m_config ctx (Some d) st))))
     \<and> (\<forall>tus. qualified_name ctx (Record_TagDecl d)
           \<notin> Record_name ` set (records (m_result
                 (run m_config tus (HandleRecordDecl m_config ctx (Some d) st)))))
     \<and> (\<forall>ctx' rest. qualified_name ctx (Record_TagDecl d)
           \<notin> Record_name ` set (records (m_result
                 (TraverseAST m_config ctx' rest (HandleRecordDecl m_config ctx (Some d) st)))))"
proof -
  let ?n = "qualified_name ctx (Record_TagDecl d)"
  let ?s = "HandleRecordDecl m_config ctx (Some d) st"
  have inl: "ShouldInlineEmptyRecord m_config d"
    using on empty by (rule empty_record_policy_inlined)
  have s: "?s = st\<lparr>m_processed := insert ?n (m_processed st)\<rparr>"
    using HandleRecordDecl_admitted [OF first, of m_config] inl by simp
  have in_s: "?n \<in> m_processed ?s"
    unfolding s by simp
  have res: "m_result ?s = m_result st"
    unfolding s by simp
  have "?n \<notin> Record_name ` set (records (m_result st))"
    using inv first(2) unfolding names_registered_def by blast
  with res have fresh: "?n \<notin> Record_name ` set (records (m_result ?s))"
    by simp
  note later = run_consumed [OF in_s fresh, of m_config]
  have gate: "\<not> fst (CanProcess ctx' (Some t) (run m_config tus ?s))"
    if "qualified_name ctx' t = ?n" for tus ctx' t
    using later [of tus] that by (simp add: CanProcess_processed)
  have trav: "?n \<notin> Record_name ` set (records (m_result (TraverseAST m_config ctx' rest ?s)))"
    for ctx' rest
    using TraverseAST_consumed [OF in_s fresh, of m_config ctx' rest] by simp
  show ?thesis
    using in_s res gate later trav by (intro conjI allI impI) simp_all
qed

text \<open>
  The record \<open>Empty\<close> of Scenario 2, visited first in a fresh run with inlining
  on: its name is registered and the result stays empty.
\<close>

theorem C10_Empty_witness:
  "names_registered Make \<and> inline_empty_structs inlining_on \<and> empty_record_policy Empty_decl
   \<and> passes_rejects (Record_TagDecl Empty_decl)
   \<and> qualified_name sample_ctx (Record_TagDecl Empty_decl) \<notin> m_processed Make
   \<and> ''Empty'' \<in> m_processed (HandleRecordDecl inlining_on sample_ctx (Some Empty_decl) Make)
   \<and> m_result (HandleRecordDecl inlining_on sample_ctx (Some Empty_decl) Make) = ParseResult_init"
proof -
  have h: "names_registered Make" "inline_empty_structs inlining_on"
    "empty_record_policy Empty_decl" "passes_rejects (Record_TagDecl Empty_decl)"
    "qualified_name sample_ctx (Record_TagDecl Empty_decl) \<notin> m_processed Make"
    by (simp_all add: names_registered_def Make_def ParseResult_init_def inlining_on_def
        empty_record_policy_def Empty_decl_def passes_rejects_def sample_tag_def)
  have n: "qualified_name sample_ctx (Record_TagDecl Empty_decl) = ''Empty''"
    by (simp add: qualified_name_def sample_ctx_def Empty_decl_def sample_tag_def named_def
        sample_policy_def)
  from C10_inlined_empty_record_consumes_its_name [OF h] n h show ?thesis
    by (simp add: Make_def)
qed

subsection \<open>Unsupported ABI\<close>

lemma run_all_non_itanium:
  assumes "\<forall>u\<in>set tus. \<not> isItaniumFamily (Ctx u)" and "tus \<noteq> []"
  shows "run m_config tus st =
           st\<lparr>m_result := (m_result st)\<lparr>error := ''only the Itanium C++ ABI is supported''\<rparr>\<rparr>"
  using assms
proof (induction tus arbitrary: st)
  case Nil
  then show ?case by simp
next
  case (Cons u tus)
  show ?case
  proof (cases "tus = []")
    case True
    with Cons.prems show ?thesis by (simp add: HandleTranslationUnit_def)
  next
    case False
    with Cons show ?thesis by (simp add: HandleTranslationUnit_def)
  qed
qed

text \<open>
  C2, as amended.  Under a C++ ABI that is not of the Itanium family the error
  message is set on the result and the translation unit is not traversed: the
  enums, the records and the processed set are what they were before the
  unit, and \<open>ParseVTable\<close> gives no vtable for any class.  A run over such units
  only ends with the message, set once, and an empty result.
\<close>

theorem C2_non_itanium_unit_is_not_traversed:
  assumes "\<not> isItaniumFamily (Ctx tu)"
  shows "error (m_result (HandleTranslationUnit m_config tu st)) = ''only the Itanium C++ ABI is supported''
     \<and> enums (m_result (HandleTranslationUnit m_config tu st)) = enums (m_result st)
     \<and> records (m_result (HandleTranslationUnit m_config tu st)) = records (m_result st)
     \<and> m_processed (HandleTranslationUnit m_config tu st) = m_processed st
     \<and> ParseVTable (Ctx tu) D = None
     \<and> (\<forall>tus. tus \<noteq> [] \<and> (\<forall>u\<in>set tus. \<not> isItaniumFamily (Ctx u)) \<longrightarrow>
           ParseRecords \<lparr>units = tus, run_status = 0\<rparr> m_config =
             \<lparr>error = ''only the Itanium C++ ABI is supported'', enums = [], records = []\<rparr>)"
proof -
  have "ParseRecords \<lparr>units = tus, run_status = 0\<rparr> m_config =
         \<lparr>error = ''only the Itanium C++ ABI is supported'', enums = [], records = []\<rparr>"
    if "tus \<noteq> []" and "\<forall>u\<in>set tus. \<not> isItaniumFamily (Ctx u)" for tus
    using run_all_non_itanium [OF that(2,1), of m_config Make]
    by (simp add: ParseRecords_def Let_def Make_def ParseResult_init_def)
  with assms show ?thesis
    by (simp add: HandleTranslationUnit_def ParseVTable_def)
qed

text \<open>
  The unit for a Microsoft target declares the enum \<open>Color\<close> and the record
  \<open>Derived\<close>; the result has the error and neither of them.
\<close>

theorem C2_microsoft_unit_witness:
  "\<not> isItaniumFamily (Ctx microsoft_unit)
   \<and> ParseRecords \<lparr>units = [microsoft_unit], run_status = 0\<rparr> inlining_off =
         \<lparr>error = ''only the Itanium C++ ABI is supported'', enums = [], records = []\<rparr>"
  using C2_non_itanium_unit_is_not_traversed
    [where tu = microsoft_unit and m_config = inlining_off and D = Derived_decl and st = Make]
  by (simp add: microsoft_unit_def sample_ctx_def)

text \<open>
  The claim that the enums and records of such a unit are still emitted fails
  on this unit: the result has no enum and no record, though the unit
  declares one of each.
\<close>

theorem C2_enums_and_records_not_emitted:
  "enums (ParseRecords \<lparr>units = [microsoft_unit], run_status = 0\<rparr> inlining_off) = []
   \<and> records (ParseRecords \<lparr>units = [microsoft_unit], run_status = 0\<rparr> inlining_off) = []
   \<and> decls microsoft_unit = [VisitEnumDecl (Some Color_decl), VisitRecordDecl (Some Derived_decl)]"
  by (simp add: ParseRecords_def Let_def HandleTranslationUnit_def microsoft_unit_def sample_ctx_def
      Make_def ParseResult_init_def)

subsection \<open>Evaluations on the example declarations\<close>

lemma sample_names [simp]:
  "sample_policy (named n) = n"
  by (simp add: sample_policy_def named_def)

text \<open>
  C3.  In \<open>struct Padded { int a; int : 32; int b; }\<close> the layout places \<open>b\<close> at bit
  64, which is byte 8; the walker reads the offset of \<open>b\<close> at the index it has
  counted, 1, where the layout holds the offset of the unnamed bit-field, and
  gives \<open>b\<close> the byte offset 4.
\<close>

theorem C3_member_after_unnamed_bitfield_gets_wrong_offset:
  "map (map MemberVariable_name \<circ> Record_fields)
     (records (m_result (HandleRecordDecl inlining_off sample_ctx (Some Padded_decl) Make)))
     = [[''a'', ''b'']]
   \<and> map (map offset \<circ> Record_fields)
     (records (m_result (HandleRecordDecl inlining_off sample_ctx (Some Padded_decl) Make)))
     = [[0, 4]]
   \<and> map getNameAsString (RecordDecl_fields Padded_decl) = [''a'', [], ''b'']
   \<and> map (toCharUnitsFromBits sample_ctx) (FieldOffsets (getASTRecordLayout Padded_decl)) = [0, 4, 8]"
  by (simp add: HandleRecordDecl_def CanProcess_def Let_def Padded_decl_def sample_tag_def
      sample_ctx_def Make_def ParseResult_init_def ShouldInlineEmptyRecord_def inlining_off_def
      AddFields_def AddBases_def AddVirtualBases_def AddDataMembers_def dyn_cast_CXXRecordDecl_def
      emplace_back_def int_field_def getFieldOffset_def toCharUnitsFromBits_def ParseVTable_def)



subsection \<open>Field order and offsets\<close>

lemma stable_sorted_by_sort_key: "stable_sorted_by key xs (sort_key key xs)"
  by (simp add: stable_sorted_by_def sort_key_stable)

lemma sorted_shifted_filter:
  fixes key :: "'a \<Rightarrow> nat"
  assumes "sorted (map key ys)"
  shows "sorted (map (\<lambda>b. base_offset + key b) (filter P ys))"
proof -
  have "sorted (map key (filter P ys))"
    using assms by (rule sorted_filter)
  then show ?thesis
    by (simp add: sorted_map)
qed

lemma offset_Base_field:
  "offset (Base_field policy base_offset off primary_base is_virtual b) = base_offset + off b"
  by (simp add: Base_field_def)


text \<open>
  The field list that \<open>AddFields\<close> appends to a record, for any base offset: the
  vtable pointer, the kept non-virtual bases, the kept members and the kept
  virtual bases, in this order.
\<close>

lemma AddFields_field_order:
  "\<exists>vptr nvb mem vb.
     Record_fields (AddFields m_config ctx policy base_offset D layout rec)
       = Record_fields rec @ vptr @ nvb @ mem @ vb
   \<and> vptr = (if isCXXRecordDecl D \<and> isDynamicClass D \<and> getPrimaryBase layout = None
             then [\<lparr>offset = base_offset, data = VTablePointer\<rparr>] else [])
   \<and> (\<exists>sorted_bases.
         stable_sorted_by (getBaseClassOffset layout) (non_virtual_bases D) sorted_bases
       \<and> nvb = map (Base_field policy base_offset (getBaseClassOffset layout) (getPrimaryBase layout) False)
                 (filter (\<lambda>b. \<not> ShouldInlineEmptyRecord m_config b) sorted_bases))
   \<and> sorted (map offset nvb)
   \<and> list_all is_MemberVariable mem
   \<and> map MemberVariable_name mem =
       map getNameAsString
         (filter (\<lambda>fd. \<not> isUnnamedBitfield fd \<and> member_kept m_config D fd) (RecordDecl_fields D))
   \<and> (\<exists>sorted_vbases.
         stable_sorted_by (getVBaseClassOffset layout) (virtual_bases D) sorted_vbases
       \<and> vb = map (Base_field policy base_offset (getVBaseClassOffset layout) (getPrimaryBase layout) True)
                (filter (\<lambda>b. \<not> ShouldInlineEmptyRecord m_config b) sorted_vbases))
   \<and> sorted (map offset vb)"
proof -
  let ?keep = "\<lambda>b. \<not> ShouldInlineEmptyRecord m_config b"
  let ?sb = "sort_key (getBaseClassOffset layout) (non_virtual_bases D)"
  let ?svb = "sort_key (getVBaseClassOffset layout) (virtual_bases D)"
  let ?vptr = "if isCXXRecordDecl D \<and> isDynamicClass D \<and> getPrimaryBase layout = None
             then [\<lparr>offset = base_offset, data = VTablePointer\<rparr>] else []"
  let ?nvb = "map (Base_field policy base_offset (getBaseClassOffset layout) (getPrimaryBase layout) False)
                 (filter ?keep ?sb)"
  let ?vb = "map (Base_field policy base_offset (getVBaseClassOffset layout) (getPrimaryBase layout) True)
                 (filter ?keep ?svb)"
  from AddFields_eq [of m_config ctx policy base_offset D layout rec] obtain mem where
    eq: "AddFields m_config ctx policy base_offset D layout rec =
           rec\<lparr>Record_fields := Record_fields rec @ ?vptr @ ?nvb @ mem @ ?vb\<rparr>"
    and mem: "list_all is_MemberVariable mem"
      "map MemberVariable_name mem =
         map getNameAsString
           (filter (\<lambda>fd. \<not> isUnnamedBitfield fd \<and> member_kept m_config D fd) (RecordDecl_fields D))"
    by blast
  have fields: "Record_fields (AddFields m_config ctx policy base_offset D layout rec)
       = Record_fields rec @ ?vptr @ ?nvb @ mem @ ?vb"
    unfolding eq by simp
  have s1: "sorted (map offset ?nvb)"
    using sorted_shifted_filter [of "getBaseClassOffset layout" ?sb base_offset ?keep]
    by (simp add: comp_def offset_Base_field)
  have s2: "sorted (map offset ?vb)"
    using sorted_shifted_filter [of "getVBaseClassOffset layout" ?svb base_offset ?keep]
    by (simp add: comp_def offset_Base_field)
  have b1: "\<exists>sorted_bases.
         stable_sorted_by (getBaseClassOffset layout) (non_virtual_bases D) sorted_bases
       \<and> ?nvb = map (Base_field policy base_offset (getBaseClassOffset layout) (getPrimaryBase layout) False)
                 (filter ?keep sorted_bases)"
    using stable_sorted_by_sort_key [of "getBaseClassOffset layout" "non_virtual_bases D"] by blast
  have b2: "\<exists>sorted_vbases.
         stable_sorted_by (getVBaseClassOffset layout) (virtual_bases D) sorted_vbases
       \<and> ?vb = map (Base_field policy base_offset (getVBaseClassOffset layout) (getPrimaryBase layout) True)
                (filter ?keep sorted_vbases)"
    using stable_sorted_by_sort_key [of "getVBaseClassOffset layout" "virtual_bases D"] by blast
  show ?thesis
    apply (rule exI [of _ ?vptr])
    apply (rule exI [of _ ?nvb])
    apply (rule exI [of _ mem])
    apply (rule exI [of _ ?vb])
    apply (intro conjI)
           apply (rule fields)
          apply (rule refl)
         apply (rule b1)
        apply (rule s1)
       apply (rule mem(1))
      apply (rule mem(2))
     apply (rule b2)
    apply (rule s2)
    done
qed

subsection \<open>Offsets\<close>




subsection \<open>Inlining of empty records\<close>







subsection \<open>The records of a result and the declarations they come from\<close>

lemma emitted_Record_fields:
  "Record_fields (emitted_Record m_config ctx d) =
     Record_fields (AddFields m_config ctx (getLangOpts ctx) 0 d (getASTRecordLayout d)
                      (Record_header ctx d))"
  by (simp add: emitted_Record_def Let_def split: option.splits)


lemma emitted_Record_name:
  "Record_name (emitted_Record m_config ctx d) = qualified_name ctx (Record_TagDecl d)"
  by (simp add: emitted_Record_def Let_def AddFields_Record_name Record_header_def
      qualified_name_def split: option.splits)


lemma HandleRecordDecl_emits:
  assumes "passes_rejects (Record_TagDecl d)"
      and "qualified_name ctx (Record_TagDecl d) \<notin> m_processed st"
      and "\<not> ShouldInlineEmptyRecord m_config d"
  shows "HandleRecordDecl m_config ctx (Some d) st =
      st\<lparr>m_processed := insert (qualified_name ctx (Record_TagDecl d)) (m_processed st),
         m_result := (m_result st)\<lparr>records := records (m_result st) @ [emitted_Record m_config ctx d]\<rparr>\<rparr>"
proof -
  have gate: "CanProcess ctx (Some (Record_TagDecl d)) st =
      (True, st\<lparr>m_processed := insert (qualified_name ctx (Record_TagDecl d)) (m_processed st)\<rparr>)"
    using assms(1,2) by (simp add: CanProcess_True_iff)
  show ?thesis
    using gate assms(3)
    by (simp add: HandleRecordDecl_def Let_def emitted_Record_def Record_header_def
        split: option.splits)
qed

lemma HandleRecordDecl_records:
  "records (m_result (HandleRecordDecl m_config ctx D st)) = records (m_result st)
   \<or> (\<exists>d. D = Some d \<and> \<not> ShouldInlineEmptyRecord m_config d
          \<and> records (m_result (HandleRecordDecl m_config ctx D st))
              = records (m_result st) @ [emitted_Record m_config ctx d])"
proof (cases D)
  case None
  then show ?thesis by (simp add: HandleRecordDecl_rejected CanProcess_None)
next
  case (Some d)
  show ?thesis
  proof (cases "passes_rejects (Record_TagDecl d)
      \<and> qualified_name ctx (Record_TagDecl d) \<notin> m_processed st")
    case admitted: True
    show ?thesis
    proof (cases "ShouldInlineEmptyRecord m_config d")
      case True
      with Some show ?thesis by (simp add: HandleRecordDecl_inlined)
    next
      case False
      with admitted Some HandleRecordDecl_emits [of d ctx st m_config] show ?thesis by simp
    qed
  next
    case False
    then have "CanProcess ctx (Some (Record_TagDecl d)) st = (False, st)"
      by (auto simp: CanProcess_rejected CanProcess_processed)
    with Some show ?thesis by (simp add: HandleRecordDecl_rejected)
  qed
qed

lemma Visit_record_origin:
  assumes "r \<in> set (records (m_result (Visit m_config ctx x st)))"
  shows "r \<in> set (records (m_result st))
     \<or> (\<exists>d. x = VisitRecordDecl (Some d) \<and> \<not> ShouldInlineEmptyRecord m_config d
            \<and> r = emitted_Record m_config ctx d)"
proof (cases x)
  case (VisitEnumDecl D)
  with assms show ?thesis by (simp add: HandleEnumDecl_records)
next
  case (VisitRecordDecl D)
  with assms HandleRecordDecl_records [of m_config ctx D st] show ?thesis by auto
qed

lemma TraverseAST_record_origin:
  assumes "r \<in> set (records (m_result (TraverseAST m_config ctx ds st)))"
  shows "r \<in> set (records (m_result st))
     \<or> (\<exists>d. VisitRecordDecl (Some d) \<in> set ds \<and> \<not> ShouldInlineEmptyRecord m_config d
            \<and> r = emitted_Record m_config ctx d)"
  using assms
proof (induction ds arbitrary: st)
  case Nil
  then show ?case by simp
next
  case (Cons x ds)
  from Cons.prems have "r \<in> set (records (m_result (TraverseAST m_config ctx ds (Visit m_config ctx x st))))"
    by simp
  from Cons.IH [OF this] show ?case
  proof
    assume "r \<in> set (records (m_result (Visit m_config ctx x st)))"
    from Visit_record_origin [OF this] show ?thesis by auto
  next
    assume "\<exists>d. VisitRecordDecl (Some d) \<in> set ds \<and> \<not> ShouldInlineEmptyRecord m_config d
            \<and> r = emitted_Record m_config ctx d"
    then show ?thesis by auto
  qed
qed

lemma run_record_origin:
  assumes "r \<in> set (records (m_result (run m_config tus st)))"
  shows "r \<in> set (records (m_result st))
     \<or> (\<exists>tu d. tu \<in> set tus \<and> isItaniumFamily (Ctx tu)
            \<and> VisitRecordDecl (Some d) \<in> set (decls tu)
            \<and> \<not> ShouldInlineEmptyRecord m_config d
            \<and> r = emitted_Record m_config (Ctx tu) d)"
  using assms
proof (induction tus arbitrary: st)
  case Nil
  then show ?case by simp
next
  case (Cons tu tus)
  from Cons.prems have "r \<in> set (records (m_result (run m_config tus (HandleTranslationUnit m_config tu st))))"
    by simp
  from Cons.IH [OF this] show ?case
  proof
    assume in_tu: "r \<in> set (records (m_result (HandleTranslationUnit m_config tu st)))"
    show ?thesis
    proof (cases "isItaniumFamily (Ctx tu)")
      case True
      with in_tu have "r \<in> set (records (m_result (TraverseAST m_config (Ctx tu) (decls tu) st)))"
        by (simp add: HandleTranslationUnit_def)
      from TraverseAST_record_origin [OF this] True show ?thesis by auto
    next
      case False
      with in_tu show ?thesis by (simp add: HandleTranslationUnit_def)
    qed
  next
    assume "\<exists>tu d. tu \<in> set tus \<and> isItaniumFamily (Ctx tu)
            \<and> VisitRecordDecl (Some d) \<in> set (decls tu)
            \<and> \<not> ShouldInlineEmptyRecord m_config d
            \<and> r = emitted_Record m_config (Ctx tu) d"
    then show ?thesis by auto
  qed
qed

lemma result_record_origin:
  assumes "r \<in> set (records (m_result (run m_config tus Make)))"
  shows "\<exists>tu d. tu \<in> set tus \<and> isItaniumFamily (Ctx tu)
            \<and> VisitRecordDecl (Some d) \<in> set (decls tu)
            \<and> \<not> ShouldInlineEmptyRecord m_config d
            \<and> r = emitted_Record m_config (Ctx tu) d"
  using run_record_origin [OF assms] by (simp add: Make_def ParseResult_init_def)

lemma Multi_unit_result:
  "records (m_result (run inlining_off [Multi_unit] Make)) = [Multi_record]"
proof -
  have neq: "A_decl \<noteq> B_decl"
    by (simp add: A_decl_def B_decl_def)
  show ?thesis
    using neq
    by (simp add: HandleTranslationUnit_def Multi_unit_def HandleRecordDecl_def CanProcess_def
        AddFields_def AddBases_def AddVirtualBases_def AddDataMembers_def Let_def
        dyn_cast_CXXRecordDecl_def Multi_decl_def Multi_layout_def Multi_record_def
        getBaseClassOffset_def getVBaseClassOffset_def getFieldOffset_def toCharUnitsFromBits_def
        ShouldInlineEmptyRecord_def inlining_off_def emplace_back_def int_field_def sample_ctx_def
        Make_def ParseResult_init_def ParseVTable_def no_vtable_def Record_kind_of_def sample_tag_def)
       (simp add: A_decl_def B_decl_def V_decl_def sample_tag_def named_def sample_policy_def)
qed

lemma Multi_unit_origin:
  assumes "tu \<in> set [Multi_unit]" and "VisitRecordDecl (Some d) \<in> set (decls tu)"
  shows "tu = Multi_unit \<and> d = Multi_decl"
  using assms by (simp add: Multi_unit_def)

text \<open>
  C4, as amended.  Every record of the result of a run comes from a record
  declaration of one of its translation units, and its field list is, in
  this order: the vtable pointer at offset 0, present exactly when the
  declaration is a C++ class that is dynamic and has no primary base; the
  kept non-virtual bases, taken from the declared ones stable-sorted by
  ascending base offset, so with ascending field offsets; the kept data
  members in declaration order; and the kept virtual bases, taken from the
  virtual bases stable-sorted by ascending virtual-base offset.  A class is
  dynamic when it is polymorphic or has a virtual base, so the vtable pointer
  is there exactly when the class is polymorphic or has a virtual base, and
  has no primary base.
\<close>

theorem C4_field_order_of_every_record:
  assumes "r \<in> set (records (m_result (run m_config tus Make)))"
  shows "\<exists>tu d vptr nvb mem vb.
     tu \<in> set tus \<and> VisitRecordDecl (Some d) \<in> set (decls tu)
   \<and> Record_name r = qualified_name (Ctx tu) (Record_TagDecl d)
   \<and> Record_fields r = vptr @ nvb @ mem @ vb
   \<and> vptr = (if isCXXRecordDecl d \<and> isDynamicClass d \<and> getPrimaryBase (getASTRecordLayout d) = None
             then [\<lparr>offset = 0, data = VTablePointer\<rparr>] else [])
   \<and> ((isDynamicClass d \<longleftrightarrow> isPolymorphic d \<or> vbases d \<noteq> []) \<longrightarrow>
        (vptr \<noteq> [] \<longleftrightarrow>
           isCXXRecordDecl d \<and> (isPolymorphic d \<or> vbases d \<noteq> [])
           \<and> getPrimaryBase (getASTRecordLayout d) = None))
   \<and> (\<exists>sorted_bases.
         stable_sorted_by (getBaseClassOffset (getASTRecordLayout d)) (non_virtual_bases d) sorted_bases
       \<and> nvb = map (Base_field (getLangOpts (Ctx tu)) 0 (getBaseClassOffset (getASTRecordLayout d))
                      (getPrimaryBase (getASTRecordLayout d)) False)
                 (filter (\<lambda>b. \<not> ShouldInlineEmptyRecord m_config b) sorted_bases))
   \<and> sorted (map offset nvb)
   \<and> list_all is_MemberVariable mem
   \<and> map MemberVariable_name mem =
       map getNameAsString
         (filter (\<lambda>fd. \<not> isUnnamedBitfield fd \<and> member_kept m_config d fd) (RecordDecl_fields d))
   \<and> (\<exists>sorted_vbases.
         stable_sorted_by (getVBaseClassOffset (getASTRecordLayout d)) (virtual_bases d) sorted_vbases
       \<and> vb = map (Base_field (getLangOpts (Ctx tu)) 0 (getVBaseClassOffset (getASTRecordLayout d))
                     (getPrimaryBase (getASTRecordLayout d)) True)
                (filter (\<lambda>b. \<not> ShouldInlineEmptyRecord m_config b) sorted_vbases))
   \<and> sorted (map offset vb)"
proof -
  from result_record_origin [OF assms] obtain tu d where
    tu: "tu \<in> set tus" and d: "VisitRecordDecl (Some d) \<in> set (decls tu)"
    and r: "r = emitted_Record m_config (Ctx tu) d"
    by blast
  let ?L = "getASTRecordLayout d"
  let ?P = "getLangOpts (Ctx tu)"
  from AddFields_field_order [of m_config "Ctx tu" ?P 0 d ?L "Record_header (Ctx tu) d"]
  obtain vptr nvb mem vb where
    f: "Record_fields (AddFields m_config (Ctx tu) ?P 0 d ?L (Record_header (Ctx tu) d))
          = Record_fields (Record_header (Ctx tu) d) @ vptr @ nvb @ mem @ vb"
    and v: "vptr = (if isCXXRecordDecl d \<and> isDynamicClass d \<and> getPrimaryBase ?L = None
             then [\<lparr>offset = 0, data = VTablePointer\<rparr>] else [])"
    and nb: "\<exists>sorted_bases.
         stable_sorted_by (getBaseClassOffset ?L) (non_virtual_bases d) sorted_bases
       \<and> nvb = map (Base_field ?P 0 (getBaseClassOffset ?L) (getPrimaryBase ?L) False)
                 (filter (\<lambda>b. \<not> ShouldInlineEmptyRecord m_config b) sorted_bases)"
    and s1: "sorted (map offset nvb)"
    and m1: "list_all is_MemberVariable mem"
    and m2: "map MemberVariable_name mem =
       map getNameAsString
         (filter (\<lambda>fd. \<not> isUnnamedBitfield fd \<and> member_kept m_config d fd) (RecordDecl_fields d))"
    and vbx: "\<exists>sorted_vbases.
         stable_sorted_by (getVBaseClassOffset ?L) (virtual_bases d) sorted_vbases
       \<and> vb = map (Base_field ?P 0 (getVBaseClassOffset ?L) (getPrimaryBase ?L) True)
                (filter (\<lambda>b. \<not> ShouldInlineEmptyRecord m_config b) sorted_vbases)"
    and s2: "sorted (map offset vb)"
    by blast
  have fr: "Record_fields r = vptr @ nvb @ mem @ vb"
    using f by (simp add: r emitted_Record_fields Record_header_def)
  have nm: "Record_name r = qualified_name (Ctx tu) (Record_TagDecl d)"
    by (simp add: r emitted_Record_name)
  have iff: "(isDynamicClass d \<longleftrightarrow> isPolymorphic d \<or> vbases d \<noteq> []) \<longrightarrow>
        (vptr \<noteq> [] \<longleftrightarrow>
           isCXXRecordDecl d \<and> (isPolymorphic d \<or> vbases d \<noteq> []) \<and> getPrimaryBase ?L = None)"
    unfolding v by simp
  show ?thesis
    apply (rule exI [of _ tu])
    apply (rule exI [of _ d])
    apply (rule exI [of _ vptr])
    apply (rule exI [of _ nvb])
    apply (rule exI [of _ mem])
    apply (rule exI [of _ vb])
    apply (intro conjI)
               apply (rule tu)
              apply (rule d)
             apply (rule nm)
            apply (rule fr)
           apply (rule v)
          apply (rule iff)
         apply (rule nb)
        apply (rule s1)
       apply (rule m1)
      apply (rule m2)
     apply (rule vbx)
    apply (rule s2)
    done
qed

text \<open>
  The run over the unit that declares \<open>Multi\<close> gives one record, with the fields
  \<open>B\<close> at 0, \<open>A\<close> at 8, the member \<open>c\<close> at 12 and the virtual base \<open>V\<close> at 16, and
  without a vtable pointer since \<open>B\<close> is the primary base.
\<close>

theorem C4_Multi_witness:
  "records (m_result (run inlining_off [Multi_unit] Make)) = [Multi_record]
   \<and> (\<exists>vptr nvb mem vb.
        Record_fields Multi_record = vptr @ nvb @ mem @ vb
      \<and> vptr = [] \<and> sorted (map offset nvb) \<and> list_all is_MemberVariable mem
      \<and> sorted (map offset vb))"
proof -
  have mem: "Multi_record \<in> set (records (m_result (run inlining_off [Multi_unit] Make)))"
    unfolding Multi_unit_result by simp
  from C4_field_order_of_every_record [OF mem] obtain tu d vptr nvb mem vb where
    o: "tu \<in> set [Multi_unit]" "VisitRecordDecl (Some d) \<in> set (decls tu)"
    and f: "Record_fields Multi_record = vptr @ nvb @ mem @ vb"
    and v: "vptr = (if isCXXRecordDecl d \<and> isDynamicClass d \<and> getPrimaryBase (getASTRecordLayout d) = None
             then [\<lparr>offset = 0, data = VTablePointer\<rparr>] else [])"
    and rest: "sorted (map offset nvb)" "list_all is_MemberVariable mem" "sorted (map offset vb)"
    by blast
  from Multi_unit_origin [OF o] have "d = Multi_decl" by simp
  with v have "vptr = []"
    by (simp add: Multi_decl_def Multi_layout_def)
  with f rest have "\<exists>vptr nvb mem vb.
        Record_fields Multi_record = vptr @ nvb @ mem @ vb
      \<and> vptr = [] \<and> sorted (map offset nvb) \<and> list_all is_MemberVariable mem
      \<and> sorted (map offset vb)"
    by blast
  with Multi_unit_result show ?thesis by (rule conjI)
qed

text \<open>
  \<open>VD\<close> has a virtual base and no virtual function: it is not polymorphic and
  has no primary base, and its record starts with a vtable pointer, against
  the claim that the pointer is there only for a polymorphic class.
\<close>

theorem C4_vtable_pointer_without_virtual_function:
  "\<not> isPolymorphic VD_decl
   \<and> map (map data \<circ> Record_fields)
       (records (m_result (run inlining_off
          [\<lparr>Ctx = sample_ctx, decls = [VisitRecordDecl (Some VD_decl)]\<rparr>] Make)))
     = [[VTablePointer,
         MemberVariable 0 (ComplexTypeName ''int'' False False) ''int'' ''d'',
         Base False True ''V'']]"
  by (simp add: HandleTranslationUnit_def HandleRecordDecl_def CanProcess_def
        AddFields_def AddBases_def AddVirtualBases_def AddDataMembers_def Let_def
        dyn_cast_CXXRecordDecl_def VD_decl_def
        getBaseClassOffset_def getVBaseClassOffset_def getFieldOffset_def toCharUnitsFromBits_def
        ShouldInlineEmptyRecord_def inlining_off_def emplace_back_def int_field_def sample_ctx_def
        Make_def ParseResult_init_def ParseVTable_def Record_kind_of_def sample_tag_def)
     (simp add: V_decl_def sample_tag_def named_def sample_policy_def)

subsection \<open>Each field at its own layout offset\<close>






end
